theory Spec2Isabelle
  imports Complex_Main
begin

section \<open>The Pong core of \<open>src/pong.ts\<close>\<close>

text \<open>
  The closure created by \<open>createPong\<close> is modelled as one record, \<open>game\<close>, which every
  function of the source takes and returns. A JavaScript \<open>number\<close> is modelled as a
  \<open>real\<close>: rounding, infinities and NaN of IEEE doubles are outside this model. The two
  host services the simulation reads, \<open>performance.now()\<close> and \<open>Math.random()\<close>, are
  arguments of the functions that call them, one argument for each call.
\<close>

subsection \<open>Options and constants\<close>

type_synonym number = real

text \<open>The difficulty settings of \<open>PongOptions\<close>; an absent option is \<open>None\<close>. The
  presentation options (width, height, shadow, responsive, maxWidth, className) only
  reach the page layout and are left out.\<close>

record PongOptions =
  playerSpeed :: "number option"
  aiSpeed :: "number option"
  ballSpeed :: "number option"
  ballSpeedStep :: "number option"
  ballSpeedMax :: "number option"
  winScore :: "number option"

text \<open>\<open>a ?? b\<close>\<close>

definition nullish :: "number option \<Rightarrow> number \<Rightarrow> number" where
  "nullish a b = (case a of None \<Rightarrow> b | Some v \<Rightarrow> v)"

definition WIDTH :: number where "WIDTH = 800"
definition HEIGHT :: number where "HEIGHT = 500"
definition PADDLE_WIDTH :: number where "PADDLE_WIDTH = 12"
definition PADDLE_HEIGHT :: number where "PADDLE_HEIGHT = 90"
definition BALL_RADIUS :: number where "BALL_RADIUS = 8"
definition GOAL_PAUSE_MS :: number where "GOAL_PAUSE_MS = 1000"
definition PLAYER_X :: number where "PLAYER_X = 20"
definition AI_X :: number where "AI_X = WIDTH - 20 - PADDLE_WIDTH"
definition touchThreshold :: number where "touchThreshold = 20"

definition PLAYER_SPEED :: "PongOptions \<Rightarrow> number" where
  "PLAYER_SPEED opts = nullish (playerSpeed opts) 5"
definition AI_MAX_SPEED :: "PongOptions \<Rightarrow> number" where
  "AI_MAX_SPEED opts = nullish (aiSpeed opts) 3"
definition BALL_SPEED_INITIAL :: "PongOptions \<Rightarrow> number" where
  "BALL_SPEED_INITIAL opts = nullish (ballSpeed opts) 4"
definition BALL_SPEED_STEP :: "PongOptions \<Rightarrow> number" where
  "BALL_SPEED_STEP opts = nullish (ballSpeedStep opts) (3 / 10)"
definition BALL_SPEED_MAX :: "PongOptions \<Rightarrow> number" where
  "BALL_SPEED_MAX opts = nullish (ballSpeedMax opts) 10"
definition WIN_SCORE :: "PongOptions \<Rightarrow> number" where
  "WIN_SCORE opts = nullish (winScore opts) 5"

text \<open>The options object \<open>{}\<close>: every setting takes its default.\<close>

definition default_options :: PongOptions where
  "default_options = \<lparr>playerSpeed = None, aiSpeed = None, ballSpeed = None,
     ballSpeedStep = None, ballSpeedMax = None, winScore = None\<rparr>"

subsection \<open>Math helpers\<close>

definition clamp :: "number \<Rightarrow> number \<Rightarrow> number \<Rightarrow> number" where
  "clamp v mn mx = min mx (max mn v)"

text \<open>\<open>randomSign\<close> and \<open>randomRange\<close>, given the value \<open>r\<close> that \<open>Math.random()\<close> returns.\<close>

definition randomSign :: "number \<Rightarrow> number" where
  "randomSign r = (if r < 1 / 2 then - 1 else 1)"

definition randomRange :: "number \<Rightarrow> number \<Rightarrow> number \<Rightarrow> number" where
  "randomRange mn mx r = mn + r * (mx - mn)"

definition hypot :: "number \<Rightarrow> number \<Rightarrow> number" where
  "hypot a b = sqrt (a * a + b * b)"

definition sign :: "number \<Rightarrow> number" where
  "sign v = (if 0 < v then 1 else if v < 0 then - 1 else 0)"

text \<open>\<open>a || b\<close> on numbers: \<open>b\<close> when \<open>a\<close> is zero.\<close>

definition or_else :: "number \<Rightarrow> number \<Rightarrow> number" where
  "or_else a b = (if a = 0 then b else a)"

subsection \<open>Game state\<close>

text \<open>
  The object \<open>state.scores\<close> lives in a store of score objects, \<open>heap\<close>, and the game
  holds its address, \<open>scores\<close>: \<open>getScores\<close> hands a second object of that kind to the
  caller, and what the caller can reach through it depends on the two being different
  objects. \<open>heap_next\<close> is the first address not yet allocated.
\<close>

type_synonym addr = nat

record scores_obj =
  player :: number
  ai :: number

datatype overlay_text =
    ClickOrTapToStart
  | Blank
  | ScoreLine number number
  | YouWin
  | AIWins

datatype background = HalfBlack | Transparent

text \<open>
  \<open>state.ball.x\<close> is \<open>ball_x\<close>, \<open>state.player.y\<close> is \<open>player_y\<close>, \<open>state.input.up\<close> is
  \<open>input_up\<close>, and so on. After the fields of \<open>GameState\<close> come the two touch variables
  of the closure, the overlay element, the focus of the host element, and the host's
  queue of animation-frame requests: \<open>raf_queue\<close> holds the ids of the requested
  callbacks that have neither run nor been cancelled, \<open>raf_last\<close> the last id handed out.
\<close>

record game =
  ball_x :: number
  ball_y :: number
  ball_vx :: number
  ball_vy :: number
  player_y :: number
  ai_y :: number
  scores :: addr
  running :: bool
  pausedUntil :: number
  lastTime :: "number option"
  input_up :: bool
  input_down :: bool
  rafId :: nat
  touchStartY :: number
  touchCurrentY :: number
  overlay_textContent :: overlay_text
  overlay_backgroundColor :: background
  overlay_zIndex :: nat
  host_focused :: bool
  raf_queue :: "nat list"
  raf_last :: nat
  heap :: "addr \<Rightarrow> scores_obj"
  heap_next :: addr

definition scores_player :: "game \<Rightarrow> number" where
  "scores_player g = player (heap g (scores g))"

definition scores_ai :: "game \<Rightarrow> number" where
  "scores_ai g = ai (heap g (scores g))"

definition set_scores_player :: "number \<Rightarrow> game \<Rightarrow> game" where
  "set_scores_player v g = g\<lparr>heap := (heap g)(scores g := (heap g (scores g))\<lparr>player := v\<rparr>)\<rparr>"

definition set_scores_ai :: "number \<Rightarrow> game \<Rightarrow> game" where
  "set_scores_ai v g = g\<lparr>heap := (heap g)(scores g := (heap g (scores g))\<lparr>ai := v\<rparr>)\<rparr>"

text \<open>\<open>requestAnimationFrame(loop)\<close> returns a fresh non-zero id and queues the callback;
  \<open>cancelAnimationFrame(id)\<close> takes it out of the queue.\<close>

definition requestAnimationFrame :: "game \<Rightarrow> nat \<times> game" where
  "requestAnimationFrame g =
     (Suc (raf_last g), g\<lparr>raf_queue := raf_queue g @ [Suc (raf_last g)], raf_last := Suc (raf_last g)\<rparr>)"

definition cancelAnimationFrame :: "nat \<Rightarrow> game \<Rightarrow> game" where
  "cancelAnimationFrame i g = g\<lparr>raf_queue := removeAll i (raf_queue g)\<rparr>"

subsection \<open>Construction\<close>

datatype error = ContainerRequired | NoCanvasContext

text \<open>The state literal of lines 119 to 129, the start message of lines 132 to 134
  (which replaces the text the overlay was created with), and the first \<open>render()\<close>,
  which leaves the overlay alone because \<open>running\<close> is false.\<close>

definition initial_game :: "PongOptions \<Rightarrow> game" where
  "initial_game opts =
     \<lparr>ball_x = WIDTH / 2, ball_y = HEIGHT / 2, ball_vx = BALL_SPEED_INITIAL opts, ball_vy = 0,
      player_y = HEIGHT / 2 - PADDLE_HEIGHT / 2,
      ai_y = HEIGHT / 2 - PADDLE_HEIGHT / 2,
      scores = 0,
      running = False,
      pausedUntil = 0,
      lastTime = None,
      input_up = False, input_down = False,
      rafId = 0,
      touchStartY = 0, touchCurrentY = 0,
      overlay_textContent = ClickOrTapToStart,
      overlay_backgroundColor = HalfBlack,
      overlay_zIndex = 10,
      host_focused = False,
      raf_queue = [], raf_last = 0,
      heap = (\<lambda>_. \<lparr>player = 0, ai = 0\<rparr>),
      heap_next = 1\<rparr>"

text \<open>\<open>createPong\<close>: \<open>has_container\<close> says that the container argument is present,
  \<open>has_context\<close> that \<open>canvas.getContext('2d')\<close> returned a context.\<close>

definition createPong :: "bool \<Rightarrow> bool \<Rightarrow> PongOptions \<Rightarrow> error + game" where
  "createPong has_container has_context opts =
     (if \<not> has_container then Inl ContainerRequired
      else if \<not> has_context then Inl NoCanvasContext
      else Inr (initial_game opts))"

subsection \<open>Serve, match reset, reflection, goal handling\<close>

text \<open>\<open>resetBall(direction?)\<close>: \<open>rs\<close> is the random number read by \<open>randomSign()\<close> (read
  only when no direction is given), \<open>rr\<close> the one read by \<open>randomRange\<close>.\<close>

definition resetBall :: "PongOptions \<Rightarrow> number option \<Rightarrow> number \<Rightarrow> number \<Rightarrow> game \<Rightarrow> game" where
  "resetBall opts direction rs rr g =
     (let dirX = (case direction of Some d \<Rightarrow> d | None \<Rightarrow> randomSign rs)
      in g\<lparr>ball_x := WIDTH / 2, ball_y := HEIGHT / 2,
           ball_vx := dirX * BALL_SPEED_INITIAL opts,
           ball_vy := randomRange (- BALL_SPEED_INITIAL opts / 2) (BALL_SPEED_INITIAL opts / 2) rr\<rparr>)"

definition resetMatch :: "PongOptions \<Rightarrow> number \<Rightarrow> number \<Rightarrow> game \<Rightarrow> game" where
  "resetMatch opts rs rr g =
     resetBall opts None rs rr
       ((set_scores_ai 0 (set_scores_player 0 g))
          \<lparr>player_y := HEIGHT / 2 - PADDLE_HEIGHT / 2,
           ai_y := HEIGHT / 2 - PADDLE_HEIGHT / 2,
           running := True,
           overlay_textContent := Blank,
           overlay_backgroundColor := Transparent,
           overlay_zIndex := 1\<rparr>)"

definition reflectFromPaddle :: "PongOptions \<Rightarrow> number \<Rightarrow> game \<Rightarrow> game" where
  "reflectFromPaddle opts paddleY g =
     (let vx0 = ball_vx g * (- 1);
          speed = min (hypot vx0 (ball_vy g) + BALL_SPEED_STEP opts) (BALL_SPEED_MAX opts);
          angleInfluence = (ball_y g - (paddleY + PADDLE_HEIGHT / 2)) / (PADDLE_HEIGHT / 2);
          directionX = or_else (sign vx0) 1;
          vy = ball_vy g + angleInfluence * 2;
          vx = directionX * sqrt (max (speed * speed - vy * vy) 1);
          norm = or_else (hypot vx vy) 1
      in g\<lparr>ball_vx := (vx / norm) * speed, ball_vy := (vy / norm) * speed\<rparr>)"

text \<open>\<open>onScore(nextDirection)\<close>: \<open>now\<close> is the clock read on line 267, \<open>rr\<close> the random
  number of the serve.\<close>

definition onScore :: "PongOptions \<Rightarrow> number \<Rightarrow> number \<Rightarrow> number \<Rightarrow> game \<Rightarrow> game" where
  "onScore opts now rr nextDirection g =
     (if scores_player g \<ge> WIN_SCORE opts \<or> scores_ai g \<ge> WIN_SCORE opts
      then g\<lparr>running := False,
             overlay_textContent := (if scores_player g > scores_ai g then YouWin else AIWins),
             overlay_backgroundColor := HalfBlack,
             overlay_zIndex := 10\<rparr>
      else resetBall opts (Some nextDirection) 0 rr (g\<lparr>pausedUntil := now + GOAL_PAUSE_MS\<rparr>))"

subsection \<open>The simulation step\<close>

text \<open>What one call of \<open>update\<close> reads from the host: the clock on line 273, the clock
  on line 267 should a goal be handled, and the random number of the serve.\<close>

record tick_env =
  now :: number
  now_goal :: number
  rnd :: number

text \<open>Lines 276 to 279.\<close>

definition update_player :: "PongOptions \<Rightarrow> game \<Rightarrow> game" where
  "update_player opts g =
     (let v0 = (0::number);
          v1 = (if input_up g then v0 - PLAYER_SPEED opts else v0);
          playerVelocity = (if input_down g then v1 + PLAYER_SPEED opts else v1)
      in g\<lparr>player_y := clamp (player_y g + playerVelocity) 0 (HEIGHT - PADDLE_HEIGHT)\<rparr>)"

text \<open>Lines 281 to 285.\<close>

definition update_ai :: "PongOptions \<Rightarrow> game \<Rightarrow> game" where
  "update_ai opts g =
     (let ballTargetY = ball_y g - PADDLE_HEIGHT / 2;
          aiSpeed = (if ball_vx g < 0 then AI_MAX_SPEED opts * (3 / 10) else AI_MAX_SPEED opts);
          delta = ballTargetY - ai_y g
      in g\<lparr>ai_y := clamp (ai_y g + clamp delta (- aiSpeed) aiSpeed) 0 (HEIGHT - PADDLE_HEIGHT)\<rparr>)"

text \<open>Lines 287 and 288.\<close>

definition update_ball :: "game \<Rightarrow> game" where
  "update_ball g = g\<lparr>ball_x := ball_x g + ball_vx g, ball_y := ball_y g + ball_vy g\<rparr>"

text \<open>Lines 290 and 291: the second test sees what the first one wrote.\<close>

definition update_walls :: "game \<Rightarrow> game" where
  "update_walls g =
     (let g1 = (if ball_y g - BALL_RADIUS \<le> 0
                then g\<lparr>ball_y := BALL_RADIUS, ball_vy := ball_vy g * (- 1)\<rparr> else g)
      in if ball_y g1 + BALL_RADIUS \<ge> HEIGHT
         then g1\<lparr>ball_y := HEIGHT - BALL_RADIUS, ball_vy := ball_vy g1 * (- 1)\<rparr> else g1)"

text \<open>Lines 293 to 310: the test against the AI paddle sees what the hit on the player
  paddle wrote.\<close>

definition update_paddles :: "PongOptions \<Rightarrow> game \<Rightarrow> game" where
  "update_paddles opts g =
     (let g1 = (if ball_x g - BALL_RADIUS \<le> PLAYER_X + PADDLE_WIDTH \<and>
                   ball_x g - BALL_RADIUS \<ge> PLAYER_X \<and>
                   ball_y g \<ge> player_y g \<and>
                   ball_y g \<le> player_y g + PADDLE_HEIGHT
                then reflectFromPaddle opts (player_y g)
                       (g\<lparr>ball_x := PLAYER_X + PADDLE_WIDTH + BALL_RADIUS\<rparr>)
                else g)
      in if ball_x g1 + BALL_RADIUS \<ge> AI_X \<and>
            ball_x g1 + BALL_RADIUS \<le> AI_X + PADDLE_WIDTH \<and>
            ball_y g1 \<ge> ai_y g1 \<and>
            ball_y g1 \<le> ai_y g1 + PADDLE_HEIGHT
         then reflectFromPaddle opts (ai_y g1) (g1\<lparr>ball_x := AI_X - BALL_RADIUS\<rparr>)
         else g1)"

text \<open>Lines 312 and 313.\<close>

definition update_goal :: "PongOptions \<Rightarrow> tick_env \<Rightarrow> game \<Rightarrow> game" where
  "update_goal opts e g =
     (if ball_x g < - BALL_RADIUS
      then onScore opts (now_goal e) (rnd e) (- 1) (set_scores_ai (scores_ai g + 1) g)
      else if ball_x g > WIDTH + BALL_RADIUS
      then onScore opts (now_goal e) (rnd e) 1 (set_scores_player (scores_player g + 1) g)
      else g)"

text \<open>The state in which lines 312 and 313 test the ball: after the paddles, the ball,
  the walls and the paddle hits of a tick that is neither stopped nor paused.\<close>

definition before_goal :: "PongOptions \<Rightarrow> game \<Rightarrow> game" where
  "before_goal opts g =
     update_paddles opts (update_walls (update_ball (update_ai opts (update_player opts g))))"

definition update :: "PongOptions \<Rightarrow> tick_env \<Rightarrow> number \<Rightarrow> game \<Rightarrow> game" where
  "update opts e dt g =
     (if \<not> running g then g
      else if now e < pausedUntil g then g
      else update_goal opts e (before_goal opts g))"

subsection \<open>Frame driver and control surface\<close>

text \<open>\<open>render\<close> paints the canvas, which is not part of the state, and writes the score
  line into the overlay while the match runs.\<close>

definition render :: "game \<Rightarrow> game" where
  "render g =
     (if running g then g\<lparr>overlay_textContent := ScoreLine (scores_player g) (scores_ai g)\<rparr> else g)"

definition loop :: "PongOptions \<Rightarrow> tick_env \<Rightarrow> number \<Rightarrow> game \<Rightarrow> game" where
  "loop opts e ts g =
     (let lt = (case lastTime g of None \<Rightarrow> ts | Some t \<Rightarrow> t);
          dt = (ts - lt) / 1000;
          g1 = render (update opts e dt (g\<lparr>lastTime := Some ts\<rparr>))
      in case requestAnimationFrame g1 of (i, g2) \<Rightarrow> g2\<lparr>rafId := i\<rparr>)"

definition start :: "game \<Rightarrow> game" where
  "start g =
     (if running g then g
      else case requestAnimationFrame
                  (g\<lparr>running := True, lastTime := None,
                     overlay_textContent := Blank,
                     overlay_backgroundColor := Transparent,
                     overlay_zIndex := 1,
                     host_focused := True\<rparr>) of
             (i, g1) \<Rightarrow> g1\<lparr>rafId := i\<rparr>)"

definition stop :: "game \<Rightarrow> game" where
  "stop g =
     (let g1 = g\<lparr>running := False\<rparr>
      in if rafId g1 \<noteq> 0 then cancelAnimationFrame (rafId g1) g1 else g1)"

definition reset :: "PongOptions \<Rightarrow> number \<Rightarrow> number \<Rightarrow> game \<Rightarrow> game" where
  "reset opts rs rr g = resetMatch opts rs rr g"

text \<open>\<open>getScores\<close>: \<open>{ ...state.scores }\<close> allocates a new object and copies the two
  fields into it. The result is the address of the new object.\<close>

definition getScores :: "game \<Rightarrow> addr \<times> game" where
  "getScores g =
     (heap_next g,
      g\<lparr>heap := (heap g)(heap_next g := heap g (scores g)), heap_next := Suc (heap_next g)\<rparr>)"

subsection \<open>Input adapter\<close>

text \<open>A keyboard event is its \<open>code\<close>. A touch event carries its two touch lists; the
  rectangle that \<open>host.getBoundingClientRect()\<close> returns is an argument of the handler
  that asks for it. \<open>preventDefault\<close> acts on the page only.\<close>

record touch =
  clientX :: number
  clientY :: number

record TouchEvent =
  touches :: "touch list"
  changedTouches :: "touch list"

record DOMRect =
  rect_left :: number
  rect_top :: number
  rect_width :: number
  rect_height :: number

definition onKeyDown :: "PongOptions \<Rightarrow> number \<Rightarrow> number \<Rightarrow> string \<Rightarrow> game \<Rightarrow> game" where
  "onKeyDown opts rs rr code g =
     (let g1 = (if code = ''ArrowUp'' then g\<lparr>input_up := True\<rparr> else g);
          g2 = (if code = ''ArrowDown'' then g1\<lparr>input_down := True\<rparr> else g1)
      in if code = ''Enter'' \<and> \<not> running g2 then resetMatch opts rs rr g2 else g2)"

definition onKeyUp :: "string \<Rightarrow> game \<Rightarrow> game" where
  "onKeyUp code g =
     (let g1 = (if code = ''ArrowUp'' then g\<lparr>input_up := False\<rparr> else g)
      in if code = ''ArrowDown'' then g1\<lparr>input_down := False\<rparr> else g1)"

text \<open>The click listener of lines 156 to 164.\<close>

definition onClick :: "PongOptions \<Rightarrow> number \<Rightarrow> number \<Rightarrow> game \<Rightarrow> game" where
  "onClick opts rs rr g =
     (if \<not> running g
      then (if scores_player g = 0 \<and> scores_ai g = 0 then start g else resetMatch opts rs rr g)
      else g)"

definition onTouchStart :: "TouchEvent \<Rightarrow> game \<Rightarrow> game" where
  "onTouchStart e g =
     (case touches e of
        [] \<Rightarrow> g
      | t # _ \<Rightarrow> g\<lparr>touchStartY := clientY t, touchCurrentY := clientY t\<rparr>)"

definition onTouchMove :: "TouchEvent \<Rightarrow> game \<Rightarrow> game" where
  "onTouchMove e g =
     (case touches e of
        [] \<Rightarrow> g
      | t # _ \<Rightarrow>
         (let g1 = g\<lparr>touchCurrentY := clientY t\<rparr>;
              deltaY = touchCurrentY g1 - touchStartY g1
          in if \<bar>deltaY\<bar> > touchThreshold
             then (if deltaY < 0 then g1\<lparr>input_up := True, input_down := False\<rparr>
                   else g1\<lparr>input_up := False, input_down := True\<rparr>)
             else g1))"

definition onTouchEnd ::
  "PongOptions \<Rightarrow> number \<Rightarrow> number \<Rightarrow> DOMRect \<Rightarrow> TouchEvent \<Rightarrow> game \<Rightarrow> game" where
  "onTouchEnd opts rs rr rect e g =
     (let g1 = g\<lparr>input_up := False, input_down := False\<rparr>
      in if \<not> running g1
         then (case changedTouches e of
                 [] \<Rightarrow> g1
               | t # _ \<Rightarrow>
                  (let x = clientX t - rect_left rect;
                       y = clientY t - rect_top rect
                   in if x \<ge> 0 \<and> x \<le> rect_width rect \<and> y \<ge> 0 \<and> y \<le> rect_height rect
                      then (if scores_player g1 = 0 \<and> scores_ai g1 = 0 then start g1
                            else resetMatch opts rs rr g1)
                      else g1))
         else g1)"

subsection \<open>Runs of a game\<close>

text \<open>
  Everything that can happen to a game between its construction and \<open>destroy\<close>: a call
  of the control surface, an event delivered to a listener, or the host running the
  oldest queued animation-frame callback. Each carries the host values its handler
  reads. With an empty queue there is no callback to run, and \<open>Frame\<close> does nothing.
\<close>

datatype action =
    Start
  | Stop
  | Reset number number
  | GetScores
  | KeyDown number number string
  | KeyUp string
  | Click number number
  | TouchStart TouchEvent
  | TouchMove TouchEvent
  | TouchEnd number number DOMRect TouchEvent
  | Frame tick_env number

definition frame :: "PongOptions \<Rightarrow> tick_env \<Rightarrow> number \<Rightarrow> game \<Rightarrow> game" where
  "frame opts e ts g =
     (case raf_queue g of
        [] \<Rightarrow> g
      | i # rest \<Rightarrow> loop opts e ts (g\<lparr>raf_queue := rest\<rparr>))"

fun perform :: "PongOptions \<Rightarrow> action \<Rightarrow> game \<Rightarrow> game" where
  "perform opts Start g = start g"
| "perform opts Stop g = stop g"
| "perform opts (Reset rs rr) g = reset opts rs rr g"
| "perform opts GetScores g = snd (getScores g)"
| "perform opts (KeyDown rs rr code) g = onKeyDown opts rs rr code g"
| "perform opts (KeyUp code) g = onKeyUp code g"
| "perform opts (Click rs rr) g = onClick opts rs rr g"
| "perform opts (TouchStart e) g = onTouchStart e g"
| "perform opts (TouchMove e) g = onTouchMove e g"
| "perform opts (TouchEnd rs rr rect e) g = onTouchEnd opts rs rr rect e g"
| "perform opts (Frame e ts) g = frame opts e ts g"

fun run :: "PongOptions \<Rightarrow> action list \<Rightarrow> game \<Rightarrow> game" where
  "run opts [] g = g"
| "run opts (a # as) g = run opts as (perform opts a g)"

text \<open>The caller of \<open>getScores\<close> assigning to a field of an object it holds.\<close>

definition host_write :: "addr \<Rightarrow> scores_obj \<Rightarrow> game \<Rightarrow> game" where
  "host_write a v g = g\<lparr>heap := (heap g)(a := v)\<rparr>"

text \<open>The paddle range.\<close>

definition paddles_in_range :: "game \<Rightarrow> bool" where
  "paddles_in_range g \<longleftrightarrow>
     0 \<le> player_y g \<and> player_y g \<le> HEIGHT - PADDLE_HEIGHT \<and>
     0 \<le> ai_y g \<and> ai_y g \<le> HEIGHT - PADDLE_HEIGHT"

section \<open>Verification\<close>

lemmas geometry_defs = WIDTH_def HEIGHT_def PADDLE_WIDTH_def PADDLE_HEIGHT_def BALL_RADIUS_def
  GOAL_PAUSE_MS_def PLAYER_X_def AI_X_def touchThreshold_def

lemmas option_defs = PLAYER_SPEED_def AI_MAX_SPEED_def BALL_SPEED_INITIAL_def
  BALL_SPEED_STEP_def BALL_SPEED_MAX_def WIN_SCORE_def default_options_def nullish_def

subsection \<open>What each part of a tick leaves alone\<close>

lemma reflectFromPaddle_frame:
  "ball_x (reflectFromPaddle opts p g) = ball_x g"
  "ball_y (reflectFromPaddle opts p g) = ball_y g"
  "player_y (reflectFromPaddle opts p g) = player_y g"
  "ai_y (reflectFromPaddle opts p g) = ai_y g"
  "running (reflectFromPaddle opts p g) = running g"
  "pausedUntil (reflectFromPaddle opts p g) = pausedUntil g"
  "scores (reflectFromPaddle opts p g) = scores g"
  "heap (reflectFromPaddle opts p g) = heap g"
  "heap_next (reflectFromPaddle opts p g) = heap_next g"
  by (simp_all add: reflectFromPaddle_def Let_def)

lemma update_paddles_frame:
  "ball_y (update_paddles opts g) = ball_y g"
  "player_y (update_paddles opts g) = player_y g"
  "ai_y (update_paddles opts g) = ai_y g"
  "running (update_paddles opts g) = running g"
  "pausedUntil (update_paddles opts g) = pausedUntil g"
  "scores (update_paddles opts g) = scores g"
  "heap (update_paddles opts g) = heap g"
  "heap_next (update_paddles opts g) = heap_next g"
  by (simp_all add: update_paddles_def Let_def reflectFromPaddle_frame)

lemma update_walls_frame:
  "ball_x (update_walls g) = ball_x g"
  "ball_vx (update_walls g) = ball_vx g"
  "player_y (update_walls g) = player_y g"
  "ai_y (update_walls g) = ai_y g"
  "running (update_walls g) = running g"
  "pausedUntil (update_walls g) = pausedUntil g"
  "scores (update_walls g) = scores g"
  "heap (update_walls g) = heap g"
  "heap_next (update_walls g) = heap_next g"
  by (simp_all add: update_walls_def Let_def)

lemma before_goal_frame:
  "player_y (before_goal opts g) = player_y (update_player opts g)"
  "ai_y (before_goal opts g) = ai_y (update_ai opts g)"
  "running (before_goal opts g) = running g"
  "pausedUntil (before_goal opts g) = pausedUntil g"
  "scores (before_goal opts g) = scores g"
  "heap (before_goal opts g) = heap g"
  "heap_next (before_goal opts g) = heap_next g"
  by (simp_all add: before_goal_def update_paddles_frame update_walls_frame
      update_ball_def update_ai_def update_player_def Let_def)

lemma before_goal_scores:
  "scores_player (before_goal opts g) = scores_player g"
  "scores_ai (before_goal opts g) = scores_ai g"
  by (simp_all add: scores_player_def scores_ai_def before_goal_frame)

lemma onScore_frame:
  "player_y (onScore opts t rr d g) = player_y g"
  "ai_y (onScore opts t rr d g) = ai_y g"
  "scores (onScore opts t rr d g) = scores g"
  "heap (onScore opts t rr d g) = heap g"
  "heap_next (onScore opts t rr d g) = heap_next g"
  by (simp_all add: onScore_def resetBall_def Let_def)

lemma update_goal_frame:
  "player_y (update_goal opts e g) = player_y g"
  "ai_y (update_goal opts e g) = ai_y g"
  "scores (update_goal opts e g) = scores g"
  "heap_next (update_goal opts e g) = heap_next g"
  by (simp_all add: update_goal_def onScore_frame set_scores_ai_def set_scores_player_def)

lemma update_goal_heap:
  "a \<noteq> scores g \<Longrightarrow> heap (update_goal opts e g) a = heap g a"
  by (simp add: update_goal_def onScore_frame set_scores_ai_def set_scores_player_def)

lemma clamp_range: "mn \<le> mx \<Longrightarrow> mn \<le> clamp v mn mx \<and> clamp v mn mx \<le> mx"
  by (simp add: clamp_def)

lemma clamp_step: "0 \<le> s \<Longrightarrow> \<bar>clamp d (- s) s\<bar> \<le> s"
  by (auto simp: clamp_def min_def max_def abs_if)

lemma clamp_inside: "mn \<le> v \<Longrightarrow> v \<le> mx \<Longrightarrow> clamp v mn mx = v"
  by (simp add: clamp_def)

text \<open>The ball leaves through the left or the right edge in a tick exactly when its
  position plus its velocity is beyond that edge: a paddle hit puts the ball back inside
  the field, and a ball beyond an edge is out of reach of both paddles.\<close>

lemma pre_paddles_ball_x:
  "ball_x (update_walls (update_ball (update_ai opts (update_player opts g)))) = ball_x g + ball_vx g"
  by (simp add: update_walls_frame update_ball_def update_ai_def update_player_def Let_def)

lemma update_paddles_left:
  "ball_x (update_paddles opts g) < - BALL_RADIUS \<longleftrightarrow> ball_x g < - BALL_RADIUS"
  by (simp add: update_paddles_def Let_def reflectFromPaddle_frame geometry_defs)

lemma update_paddles_right:
  "ball_x (update_paddles opts g) > WIDTH + BALL_RADIUS \<longleftrightarrow> ball_x g > WIDTH + BALL_RADIUS"
  by (simp add: update_paddles_def Let_def reflectFromPaddle_frame geometry_defs)

lemma left_exit_iff:
  "ball_x (before_goal opts g) < - BALL_RADIUS \<longleftrightarrow> ball_x g + ball_vx g < - BALL_RADIUS"
  by (simp add: before_goal_def update_paddles_left pre_paddles_ball_x)

lemma right_exit_iff:
  "ball_x (before_goal opts g) > WIDTH + BALL_RADIUS \<longleftrightarrow> ball_x g + ball_vx g > WIDTH + BALL_RADIUS"
  by (simp add: before_goal_def update_paddles_right pre_paddles_ball_x)

subsection \<open>Goals\<close>

lemma onScore_win:
  "scores_player g \<ge> WIN_SCORE opts \<or> scores_ai g \<ge> WIN_SCORE opts \<Longrightarrow>
   \<not> running (onScore opts t rr d g) \<and>
   ball_x (onScore opts t rr d g) = ball_x g \<and> ball_y (onScore opts t rr d g) = ball_y g \<and>
   ball_vx (onScore opts t rr d g) = ball_vx g \<and> ball_vy (onScore opts t rr d g) = ball_vy g \<and>
   pausedUntil (onScore opts t rr d g) = pausedUntil g"
  by (simp add: onScore_def)

lemma onScore_serve:
  "\<not> (scores_player g \<ge> WIN_SCORE opts \<or> scores_ai g \<ge> WIN_SCORE opts) \<Longrightarrow>
   running (onScore opts t rr d g) = running g \<and>
   pausedUntil (onScore opts t rr d g) = t + 1000 \<and>
   ball_x (onScore opts t rr d g) = WIDTH / 2 \<and> ball_y (onScore opts t rr d g) = HEIGHT / 2 \<and>
   ball_vx (onScore opts t rr d g) = d * BALL_SPEED_INITIAL opts \<and>
   ball_vy (onScore opts t rr d g) =
     randomRange (- BALL_SPEED_INITIAL opts / 2) (BALL_SPEED_INITIAL opts / 2) rr"
  by (simp add: onScore_def resetBall_def GOAL_PAUSE_MS_def)

lemma onScore_scores:
  "scores_player (onScore opts t rr d g) = scores_player g"
  "scores_ai (onScore opts t rr d g) = scores_ai g"
  by (simp_all add: scores_player_def scores_ai_def onScore_frame)

lemma set_scores_ai_fields:
  "scores_ai (set_scores_ai v g) = v"
  "scores_player (set_scores_ai v g) = scores_player g"
  "running (set_scores_ai v g) = running g"
  "pausedUntil (set_scores_ai v g) = pausedUntil g"
  "ball_x (set_scores_ai v g) = ball_x g"
  "ball_y (set_scores_ai v g) = ball_y g"
  "ball_vx (set_scores_ai v g) = ball_vx g"
  "ball_vy (set_scores_ai v g) = ball_vy g"
  by (simp_all add: set_scores_ai_def scores_ai_def scores_player_def)

lemma set_scores_player_fields:
  "scores_player (set_scores_player v g) = v"
  "scores_ai (set_scores_player v g) = scores_ai g"
  "running (set_scores_player v g) = running g"
  "pausedUntil (set_scores_player v g) = pausedUntil g"
  "ball_x (set_scores_player v g) = ball_x g"
  "ball_y (set_scores_player v g) = ball_y g"
  "ball_vx (set_scores_player v g) = ball_vx g"
  "ball_vy (set_scores_player v g) = ball_vy g"
  by (simp_all add: set_scores_player_def scores_ai_def scores_player_def)

lemma update_goal_left:
  assumes "ball_x g < - BALL_RADIUS"
  shows "update_goal opts e g =
           onScore opts (now_goal e) (rnd e) (- 1) (set_scores_ai (scores_ai g + 1) g)"
  using assms by (simp add: update_goal_def)

lemma update_goal_right:
  assumes "ball_x g > WIDTH + BALL_RADIUS"
  shows "update_goal opts e g =
           onScore opts (now_goal e) (rnd e) 1 (set_scores_player (scores_player g + 1) g)"
proof -
  have "\<not> ball_x g < - BALL_RADIUS" using assms by (simp add: geometry_defs)
  then show ?thesis using assms by (simp add: update_goal_def)
qed

text \<open>A goal on the left below the win threshold, in terms of the state before the tick.\<close>

lemma left_goal_serve:
  assumes "running g" and "\<not> now e < pausedUntil g"
    and "ball_x g + ball_vx g < - BALL_RADIUS"
    and "scores_player g < WIN_SCORE opts" and "scores_ai g + 1 < WIN_SCORE opts"
  shows "scores_ai (update opts e dt g) = scores_ai g + 1"
    and "scores_player (update opts e dt g) = scores_player g"
    and "ball_x (update opts e dt g) = WIDTH / 2"
    and "ball_vx (update opts e dt g) = - BALL_SPEED_INITIAL opts"
proof -
  define b where "b = before_goal opts g"
  define s where "s = set_scores_ai (scores_ai b + 1) b"
  have left: "ball_x b < - BALL_RADIUS" unfolding b_def left_exit_iff by (rule assms(3))
  have "update opts e dt g = update_goal opts e b"
    using assms(1,2) by (simp add: update_def b_def)
  also have "\<dots> = onScore opts (now_goal e) (rnd e) (- 1) s"
    unfolding s_def using left by (rule update_goal_left)
  finally have us: "update opts e dt g = onScore opts (now_goal e) (rnd e) (- 1) s" .
  have sf: "scores_ai s = scores_ai g + 1" "scores_player s = scores_player g"
    by (simp_all add: s_def b_def set_scores_ai_fields before_goal_scores)
  with assms(4,5)
  have nowin: "\<not> (scores_player s \<ge> WIN_SCORE opts \<or> scores_ai s \<ge> WIN_SCORE opts)"
    by simp
  note serve = onScore_serve [OF nowin, of "now_goal e" "rnd e" "- 1"]
  show "scores_ai (update opts e dt g) = scores_ai g + 1" by (simp add: us onScore_scores sf)
  show "scores_player (update opts e dt g) = scores_player g" by (simp add: us onScore_scores sf)
  show "ball_x (update opts e dt g) = WIDTH / 2" using serve by (simp add: us)
  show "ball_vx (update opts e dt g) = - BALL_SPEED_INITIAL opts" using serve by (simp add: us)
qed

text \<open>
  Claim C1, as stated: after a goal below the win threshold the serve goes toward the
  side just scored against. With the option \<open>ballSpeed = - 6\<close> the ball starts to the
  left; with the player's paddle at the top it passes the paddle and is at \<open>x = - 8\<close> after
  68 ticks. The next tick takes it to \<open>- 14\<close>: the AI scores its first point, the match
  goes on, and the ball is served from the centre with \<open>vx = (- 1) * (- 6) = 6\<close>, to the
  right, toward the AI, the side that scored.
\<close>

theorem goal_scoring_counterexample:
  "running ((initial_game (default_options\<lparr>ballSpeed := Some (- 6)\<rparr>))
              \<lparr>running := True, player_y := 0, ball_x := - 8\<rparr>) \<and>
   \<not> now \<lparr>now = 0, now_goal = 0, rnd = 1 / 2\<rparr>
       < pausedUntil ((initial_game (default_options\<lparr>ballSpeed := Some (- 6)\<rparr>))
                        \<lparr>running := True, player_y := 0, ball_x := - 8\<rparr>) \<and>
   ball_x (before_goal (default_options\<lparr>ballSpeed := Some (- 6)\<rparr>)
             ((initial_game (default_options\<lparr>ballSpeed := Some (- 6)\<rparr>))
                \<lparr>running := True, player_y := 0, ball_x := - 8\<rparr>)) < - BALL_RADIUS \<and>
   scores_ai (update (default_options\<lparr>ballSpeed := Some (- 6)\<rparr>)
                \<lparr>now = 0, now_goal = 0, rnd = 1 / 2\<rparr> 0
                ((initial_game (default_options\<lparr>ballSpeed := Some (- 6)\<rparr>))
                   \<lparr>running := True, player_y := 0, ball_x := - 8\<rparr>)) = 1 \<and>
   scores_player (update (default_options\<lparr>ballSpeed := Some (- 6)\<rparr>)
                \<lparr>now = 0, now_goal = 0, rnd = 1 / 2\<rparr> 0
                ((initial_game (default_options\<lparr>ballSpeed := Some (- 6)\<rparr>))
                   \<lparr>running := True, player_y := 0, ball_x := - 8\<rparr>)) = 0 \<and>
   WIN_SCORE (default_options\<lparr>ballSpeed := Some (- 6)\<rparr>) = 5 \<and>
   ball_x (update (default_options\<lparr>ballSpeed := Some (- 6)\<rparr>)
                \<lparr>now = 0, now_goal = 0, rnd = 1 / 2\<rparr> 0
                ((initial_game (default_options\<lparr>ballSpeed := Some (- 6)\<rparr>))
                   \<lparr>running := True, player_y := 0, ball_x := - 8\<rparr>)) = 400 \<and>
   ball_vx (update (default_options\<lparr>ballSpeed := Some (- 6)\<rparr>)
                \<lparr>now = 0, now_goal = 0, rnd = 1 / 2\<rparr> 0
                ((initial_game (default_options\<lparr>ballSpeed := Some (- 6)\<rparr>))
                   \<lparr>running := True, player_y := 0, ball_x := - 8\<rparr>)) = 6"
proof -
  define opts where "opts = default_options\<lparr>ballSpeed := Some (- 6)\<rparr>"
  define g where "g = (initial_game opts)\<lparr>running := True, player_y := 0, ball_x := - 8\<rparr>"
  define e where "e = \<lparr>now = 0, now_goal = 0, rnd = 1 / 2\<rparr>"
  have o: "BALL_SPEED_INITIAL opts = - 6" "WIN_SCORE opts = 5"
    by (simp_all add: opts_def option_defs)
  have h1: "running g" by (simp add: g_def)
  have h2: "\<not> now e < pausedUntil g" by (simp add: g_def e_def initial_game_def)
  have h3: "ball_x g + ball_vx g < - BALL_RADIUS"
    by (simp add: g_def initial_game_def o BALL_RADIUS_def)
  have s: "scores_player g = 0" "scores_ai g = 0"
    by (simp_all add: g_def initial_game_def scores_player_def scores_ai_def)
  have h4: "scores_player g < WIN_SCORE opts" and h5: "scores_ai g + 1 < WIN_SCORE opts"
    by (simp_all add: s o)
  have b: "ball_x (before_goal opts g) < - BALL_RADIUS" unfolding left_exit_iff by (rule h3)
  from left_goal_serve [OF h1 h2 h3 h4 h5, of 0]
  have "scores_ai (update opts e 0 g) = 1" "scores_player (update opts e 0 g) = 0"
    "ball_x (update opts e 0 g) = 400" "ball_vx (update opts e 0 g) = 6"
    by (simp_all add: s o WIDTH_def)
  with h1 h2 b o(2) show ?thesis unfolding g_def e_def opts_def by simp
qed

text \<open>
  Claim C1, amended. In a tick that is neither stopped nor paused, \<open>before_goal opts g\<close>
  is the state in which the source tests the ball against the two edges. If the ball's x
  is there below \<open>- BALL_RADIUS\<close>, the AI's score goes up by one and the player's stays.
  Then, if either score has reached \<open>WIN_SCORE\<close>, the match stops and the ball stays where
  it left the field, with its velocity; otherwise the pause lasts until 1000 ms after the
  clock read in the goal handling, and the ball is at the centre with horizontal velocity
  \<open>- BALL_SPEED_INITIAL\<close>: whenever the initial speed is positive, that is a serve to the
  left, toward the player, who was scored against. The same holds on the right, for the
  player's score and horizontal velocity \<open>BALL_SPEED_INITIAL\<close>.
\<close>

theorem goal_scoring:
  assumes "running g" and "\<not> now e < pausedUntil g"
  shows
    "(ball_x (before_goal opts g) < - BALL_RADIUS \<longrightarrow>
        scores_ai (update opts e dt g) = scores_ai g + 1 \<and>
        scores_player (update opts e dt g) = scores_player g \<and>
        (if scores_player g \<ge> WIN_SCORE opts \<or> scores_ai g + 1 \<ge> WIN_SCORE opts
         then \<not> running (update opts e dt g) \<and>
              ball_x (update opts e dt g) = ball_x (before_goal opts g) \<and>
              ball_y (update opts e dt g) = ball_y (before_goal opts g) \<and>
              ball_vx (update opts e dt g) = ball_vx (before_goal opts g) \<and>
              ball_vy (update opts e dt g) = ball_vy (before_goal opts g) \<and>
              pausedUntil (update opts e dt g) = pausedUntil g
         else running (update opts e dt g) \<and>
              pausedUntil (update opts e dt g) = now_goal e + 1000 \<and>
              ball_x (update opts e dt g) = WIDTH / 2 \<and>
              ball_y (update opts e dt g) = HEIGHT / 2 \<and>
              ball_vx (update opts e dt g) = - BALL_SPEED_INITIAL opts \<and>
              (0 < BALL_SPEED_INITIAL opts \<longrightarrow> ball_vx (update opts e dt g) < 0) \<and>
              ball_vy (update opts e dt g) =
                randomRange (- BALL_SPEED_INITIAL opts / 2) (BALL_SPEED_INITIAL opts / 2) (rnd e)))
     \<and>
     (ball_x (before_goal opts g) > WIDTH + BALL_RADIUS \<longrightarrow>
        scores_player (update opts e dt g) = scores_player g + 1 \<and>
        scores_ai (update opts e dt g) = scores_ai g \<and>
        (if scores_player g + 1 \<ge> WIN_SCORE opts \<or> scores_ai g \<ge> WIN_SCORE opts
         then \<not> running (update opts e dt g) \<and>
              ball_x (update opts e dt g) = ball_x (before_goal opts g) \<and>
              ball_y (update opts e dt g) = ball_y (before_goal opts g) \<and>
              ball_vx (update opts e dt g) = ball_vx (before_goal opts g) \<and>
              ball_vy (update opts e dt g) = ball_vy (before_goal opts g) \<and>
              pausedUntil (update opts e dt g) = pausedUntil g
         else running (update opts e dt g) \<and>
              pausedUntil (update opts e dt g) = now_goal e + 1000 \<and>
              ball_x (update opts e dt g) = WIDTH / 2 \<and>
              ball_y (update opts e dt g) = HEIGHT / 2 \<and>
              ball_vx (update opts e dt g) = BALL_SPEED_INITIAL opts \<and>
              (0 < BALL_SPEED_INITIAL opts \<longrightarrow> 0 < ball_vx (update opts e dt g)) \<and>
              ball_vy (update opts e dt g) =
                randomRange (- BALL_SPEED_INITIAL opts / 2) (BALL_SPEED_INITIAL opts / 2) (rnd e)))"
proof (intro conjI impI)
  define b where "b = before_goal opts g"
  have u: "update opts e dt g = update_goal opts e b"
    using assms by (simp add: update_def b_def)
  have rb: "running b" "pausedUntil b = pausedUntil g"
    "scores_player b = scores_player g" "scores_ai b = scores_ai g"
    using assms by (simp_all add: b_def before_goal_frame before_goal_scores)
  {
    assume "ball_x (before_goal opts g) < - BALL_RADIUS"
    then have left: "ball_x b < - BALL_RADIUS" by (simp add: b_def)
    define s where "s = set_scores_ai (scores_ai b + 1) b"
    have us: "update opts e dt g = onScore opts (now_goal e) (rnd e) (- 1) s"
      unfolding u s_def using left by (rule update_goal_left)
    have sf: "scores_ai s = scores_ai g + 1" "scores_player s = scores_player g"
      "running s" "pausedUntil s = pausedUntil g"
      "ball_x s = ball_x b" "ball_y s = ball_y b" "ball_vx s = ball_vx b" "ball_vy s = ball_vy b"
      using rb by (simp_all add: s_def set_scores_ai_fields)
    show "scores_ai (update opts e dt g) = scores_ai g + 1"
      by (simp add: us onScore_scores sf)
    show "scores_player (update opts e dt g) = scores_player g"
      by (simp add: us onScore_scores sf)
    show "if scores_player g \<ge> WIN_SCORE opts \<or> scores_ai g + 1 \<ge> WIN_SCORE opts
         then \<not> running (update opts e dt g) \<and>
              ball_x (update opts e dt g) = ball_x (before_goal opts g) \<and>
              ball_y (update opts e dt g) = ball_y (before_goal opts g) \<and>
              ball_vx (update opts e dt g) = ball_vx (before_goal opts g) \<and>
              ball_vy (update opts e dt g) = ball_vy (before_goal opts g) \<and>
              pausedUntil (update opts e dt g) = pausedUntil g
         else running (update opts e dt g) \<and>
              pausedUntil (update opts e dt g) = now_goal e + 1000 \<and>
              ball_x (update opts e dt g) = WIDTH / 2 \<and>
              ball_y (update opts e dt g) = HEIGHT / 2 \<and>
              ball_vx (update opts e dt g) = - BALL_SPEED_INITIAL opts \<and>
              (0 < BALL_SPEED_INITIAL opts \<longrightarrow> ball_vx (update opts e dt g) < 0) \<and>
              ball_vy (update opts e dt g) =
                randomRange (- BALL_SPEED_INITIAL opts / 2) (BALL_SPEED_INITIAL opts / 2) (rnd e)"
    proof (cases "scores_player s \<ge> WIN_SCORE opts \<or> scores_ai s \<ge> WIN_SCORE opts")
      case True
      from onScore_win [OF True, of "now_goal e" "rnd e" "- 1"] True
      show ?thesis by (simp add: us sf b_def)
    next
      case False
      from onScore_serve [OF False, of "now_goal e" "rnd e" "- 1"] False
      show ?thesis by (simp add: us sf)
    qed
  }
  {
    assume "ball_x (before_goal opts g) > WIDTH + BALL_RADIUS"
    then have right: "ball_x b > WIDTH + BALL_RADIUS" by (simp add: b_def)
    define s where "s = set_scores_player (scores_player b + 1) b"
    have us: "update opts e dt g = onScore opts (now_goal e) (rnd e) 1 s"
      unfolding u s_def using right by (rule update_goal_right)
    have sf: "scores_player s = scores_player g + 1" "scores_ai s = scores_ai g"
      "running s" "pausedUntil s = pausedUntil g"
      "ball_x s = ball_x b" "ball_y s = ball_y b" "ball_vx s = ball_vx b" "ball_vy s = ball_vy b"
      using rb by (simp_all add: s_def set_scores_player_fields)
    show "scores_player (update opts e dt g) = scores_player g + 1"
      by (simp add: us onScore_scores sf)
    show "scores_ai (update opts e dt g) = scores_ai g"
      by (simp add: us onScore_scores sf)
    show "if scores_player g + 1 \<ge> WIN_SCORE opts \<or> scores_ai g \<ge> WIN_SCORE opts
         then \<not> running (update opts e dt g) \<and>
              ball_x (update opts e dt g) = ball_x (before_goal opts g) \<and>
              ball_y (update opts e dt g) = ball_y (before_goal opts g) \<and>
              ball_vx (update opts e dt g) = ball_vx (before_goal opts g) \<and>
              ball_vy (update opts e dt g) = ball_vy (before_goal opts g) \<and>
              pausedUntil (update opts e dt g) = pausedUntil g
         else running (update opts e dt g) \<and>
              pausedUntil (update opts e dt g) = now_goal e + 1000 \<and>
              ball_x (update opts e dt g) = WIDTH / 2 \<and>
              ball_y (update opts e dt g) = HEIGHT / 2 \<and>
              ball_vx (update opts e dt g) = BALL_SPEED_INITIAL opts \<and>
              (0 < BALL_SPEED_INITIAL opts \<longrightarrow> 0 < ball_vx (update opts e dt g)) \<and>
              ball_vy (update opts e dt g) =
                randomRange (- BALL_SPEED_INITIAL opts / 2) (BALL_SPEED_INITIAL opts / 2) (rnd e)"
    proof (cases "scores_player s \<ge> WIN_SCORE opts \<or> scores_ai s \<ge> WIN_SCORE opts")
      case True
      from onScore_win [OF True, of "now_goal e" "rnd e" 1] True
      show ?thesis by (simp add: us sf b_def)
    next
      case False
      from onScore_serve [OF False, of "now_goal e" "rnd e" 1] False
      show ?thesis by (simp add: us sf)
    qed
  }
qed

theorem goal_scoring_witness:
  "running ((initial_game default_options)\<lparr>running := True, ball_x := - 5, ball_vx := - 4\<rparr>) \<and>
   \<not> now \<lparr>now = 0, now_goal = 7, rnd = 1 / 2\<rparr>
       < pausedUntil ((initial_game default_options)\<lparr>running := True, ball_x := - 5, ball_vx := - 4\<rparr>) \<and>
   ball_x (before_goal default_options
             ((initial_game default_options)\<lparr>running := True, ball_x := - 5, ball_vx := - 4\<rparr>))
     < - BALL_RADIUS \<and>
   scores_ai (update default_options \<lparr>now = 0, now_goal = 7, rnd = 1 / 2\<rparr> 0
                ((initial_game default_options)\<lparr>running := True, ball_x := - 5, ball_vx := - 4\<rparr>)) = 1 \<and>
   pausedUntil (update default_options \<lparr>now = 0, now_goal = 7, rnd = 1 / 2\<rparr> 0
                ((initial_game default_options)\<lparr>running := True, ball_x := - 5, ball_vx := - 4\<rparr>)) = 1007 \<and>
   ball_vx (update default_options \<lparr>now = 0, now_goal = 7, rnd = 1 / 2\<rparr> 0
                ((initial_game default_options)\<lparr>running := True, ball_x := - 5, ball_vx := - 4\<rparr>)) = - 4"
proof -
  define g where "g = (initial_game default_options)\<lparr>running := True, ball_x := - 5, ball_vx := - 4\<rparr>"
  define e where "e = \<lparr>now = 0, now_goal = 7, rnd = 1 / 2\<rparr>"
  have h1: "running g" by (simp add: g_def)
  have h2: "\<not> now e < pausedUntil g" by (simp add: g_def e_def initial_game_def)
  have h3: "ball_x (before_goal default_options g) < - BALL_RADIUS"
    unfolding left_exit_iff by (simp add: g_def BALL_RADIUS_def)
  have s: "scores_ai g = 0" "scores_player g = 0"
    by (simp_all add: g_def initial_game_def scores_ai_def scores_player_def)
  from goal_scoring [OF h1 h2, of default_options 0] h3 s
  have "scores_ai (update default_options e 0 g) = 1 \<and>
        pausedUntil (update default_options e 0 g) = 1007 \<and>
        ball_vx (update default_options e 0 g) = - 4"
    by (simp add: option_defs e_def)
  with h1 h2 h3 show ?thesis unfolding g_def e_def by simp
qed

subsection \<open>Stopped and paused ticks\<close>

text \<open>
  Claim C4. When \<open>running\<close> is false, or the clock read by \<open>update\<close> is strictly before
  \<open>pausedUntil\<close>, \<open>update\<close> returns the state it was given: the ball's position and
  velocity, both paddles and both scores are unchanged, as is everything else.
\<close>

theorem update_frozen:
  assumes "\<not> running g \<or> now e < pausedUntil g"
  shows "ball_x (update opts e dt g) = ball_x g \<and> ball_y (update opts e dt g) = ball_y g \<and>
         ball_vx (update opts e dt g) = ball_vx g \<and> ball_vy (update opts e dt g) = ball_vy g \<and>
         player_y (update opts e dt g) = player_y g \<and> ai_y (update opts e dt g) = ai_y g \<and>
         scores_player (update opts e dt g) = scores_player g \<and>
         scores_ai (update opts e dt g) = scores_ai g \<and>
         update opts e dt g = g"
proof -
  have "update opts e dt g = g" using assms by (auto simp: update_def)
  then show ?thesis by simp
qed

theorem update_frozen_witness:
  "now \<lparr>now = 999, now_goal = 999, rnd = 0\<rparr>
      < pausedUntil ((initial_game default_options)\<lparr>running := True, pausedUntil := 1000\<rparr>) \<and>
   ball_x (update default_options \<lparr>now = 999, now_goal = 999, rnd = 0\<rparr> (1 / 60)
             ((initial_game default_options)\<lparr>running := True, pausedUntil := 1000\<rparr>)) = 400"
proof -
  have h: "\<not> running ((initial_game default_options)\<lparr>running := True, pausedUntil := 1000\<rparr>) \<or>
    now \<lparr>now = 999, now_goal = 999, rnd = 0\<rparr>
      < pausedUntil ((initial_game default_options)\<lparr>running := True, pausedUntil := 1000\<rparr>)"
    by simp
  from update_frozen [OF h, of default_options "1 / 60"] show ?thesis
    by (simp add: initial_game_def WIDTH_def)
qed

subsection \<open>Elapsed time\<close>

text \<open>
  Claim C5. From the same state, with the same clock readings and the same random
  number, \<open>update\<close> gives the same state for any two values of its elapsed-time argument.
\<close>

theorem update_ignores_dt: "update opts e dt1 g = update opts e dt2 g"
  by (simp add: update_def)

subsection \<open>The two paddles\<close>

text \<open>
  Claim C6, as stated: on every such tick the AI paddle moves toward the target by at
  most the effective speed. With the option \<open>aiSpeed = - 3\<close>, the ball at \<open>y = 300\<close> moving
  right and the paddle at 205, the target is 255 and the effective speed \<open>- 3\<close>; the
  source's \<open>clamp(50, 3, - 3)\<close> is \<open>min(- 3, max(3, 50)) = - 3\<close>, and the paddle goes to 202,
  away from the target, by 3 units.
\<close>

theorem ai_paddle_tracking_counterexample:
  "running ((initial_game (default_options\<lparr>aiSpeed := Some (- 3)\<rparr>))\<lparr>running := True, ball_y := 300\<rparr>) \<and>
   \<not> now \<lparr>now = 0, now_goal = 0, rnd = 0\<rparr>
       < pausedUntil ((initial_game (default_options\<lparr>aiSpeed := Some (- 3)\<rparr>))
                        \<lparr>running := True, ball_y := 300\<rparr>) \<and>
   0 \<le> ball_vx ((initial_game (default_options\<lparr>aiSpeed := Some (- 3)\<rparr>))\<lparr>running := True, ball_y := 300\<rparr>) \<and>
   AI_MAX_SPEED (default_options\<lparr>aiSpeed := Some (- 3)\<rparr>) = - 3 \<and>
   ball_y ((initial_game (default_options\<lparr>aiSpeed := Some (- 3)\<rparr>))\<lparr>running := True, ball_y := 300\<rparr>)
     - PADDLE_HEIGHT / 2 = 255 \<and>
   ai_y ((initial_game (default_options\<lparr>aiSpeed := Some (- 3)\<rparr>))\<lparr>running := True, ball_y := 300\<rparr>) = 205 \<and>
   ai_y (update (default_options\<lparr>aiSpeed := Some (- 3)\<rparr>) \<lparr>now = 0, now_goal = 0, rnd = 0\<rparr> 0
           ((initial_game (default_options\<lparr>aiSpeed := Some (- 3)\<rparr>))\<lparr>running := True, ball_y := 300\<rparr>))
     = 202"
proof -
  define opts where "opts = default_options\<lparr>aiSpeed := Some (- 3)\<rparr>"
  define g where "g = (initial_game opts)\<lparr>running := True, ball_y := 300\<rparr>"
  define e where "e = \<lparr>now = 0, now_goal = 0, rnd = 0\<rparr>"
  have o: "AI_MAX_SPEED opts = - 3" "BALL_SPEED_INITIAL opts = 4"
    by (simp_all add: opts_def option_defs)
  have h1: "running g" by (simp add: g_def)
  have h2: "\<not> now e < pausedUntil g" by (simp add: g_def e_def initial_game_def)
  have f: "ball_vx g = 4" "ball_y g = 300" "ai_y g = 205"
    by (simp_all add: g_def initial_game_def o geometry_defs)
  have "ai_y (update opts e 0 g) = ai_y (update_ai opts g)"
    using h1 h2 by (simp add: update_def update_goal_frame before_goal_frame)
  also have "\<dots> = 202"
    by (simp add: update_ai_def Let_def f o clamp_def geometry_defs)
  finally have u: "ai_y (update opts e 0 g) = 202" .
  from h1 h2 f o(1) u show ?thesis unfolding g_def e_def opts_def
    by (simp add: PADDLE_HEIGHT_def)
qed

text \<open>
  Claim C6, amended. In a tick that is neither stopped nor paused, with the effective
  speed \<open>AI_MAX_SPEED\<close> when the ball's \<open>vx\<close> is at least 0 and 0.3 times that otherwise, and
  the target \<open>ball_y - PADDLE_HEIGHT / 2\<close> (ball and paddle as they are before the tick),
  the AI paddle's new y is its old y plus the source's \<open>clamp\<close> of the difference to the
  target between minus and plus the effective speed, all clamped into
  \<open>[0, HEIGHT - PADDLE_HEIGHT]\<close>, whatever the options. Whenever \<open>AI_MAX_SPEED\<close> is not
  negative, that step is at most the effective speed in size and never points away from
  the target.
\<close>

theorem ai_paddle_tracking:
  assumes "running g" and "\<not> now e < pausedUntil g"
  shows
    "(let effectiveSpeed = (if ball_vx g \<ge> 0 then AI_MAX_SPEED opts else 0.3 * AI_MAX_SPEED opts);
          target = ball_y g - PADDLE_HEIGHT / 2;
          movement = clamp (target - ai_y g) (- effectiveSpeed) effectiveSpeed
      in ai_y (update opts e dt g) = clamp (ai_y g + movement) 0 (HEIGHT - PADDLE_HEIGHT) \<and>
         0 \<le> ai_y (update opts e dt g) \<and> ai_y (update opts e dt g) \<le> HEIGHT - PADDLE_HEIGHT \<and>
         (0 \<le> AI_MAX_SPEED opts \<longrightarrow>
            \<bar>movement\<bar> \<le> effectiveSpeed \<and> 0 \<le> movement * (target - ai_y g)))"
proof -
  define eff where "eff = (if ball_vx g \<ge> 0 then AI_MAX_SPEED opts else 0.3 * AI_MAX_SPEED opts)"
  define target where "target = ball_y g - PADDLE_HEIGHT / 2"
  define movement where "movement = clamp (target - ai_y g) (- eff) eff"
  have "ai_y (update opts e dt g) = ai_y (update_ai opts g)"
    using assms by (simp add: update_def update_goal_frame before_goal_frame)
  also have "\<dots> = clamp (ai_y g + movement) 0 (HEIGHT - PADDLE_HEIGHT)"
    by (simp add: update_ai_def Let_def movement_def target_def eff_def not_less mult.commute)
  finally have eq: "ai_y (update opts e dt g) = clamp (ai_y g + movement) 0 (HEIGHT - PADDLE_HEIGHT)" .
  have range: "0 \<le> clamp (ai_y g + movement) 0 (HEIGHT - PADDLE_HEIGHT) \<and>
               clamp (ai_y g + movement) 0 (HEIGHT - PADDLE_HEIGHT) \<le> HEIGHT - PADDLE_HEIGHT"
    by (rule clamp_range) (simp add: geometry_defs)
  have step: "\<bar>movement\<bar> \<le> eff \<and> 0 \<le> movement * (target - ai_y g)" if "0 \<le> AI_MAX_SPEED opts"
  proof -
    from that have "0 \<le> eff" by (simp add: eff_def)
    then show ?thesis
      by (auto simp: movement_def clamp_def min_def max_def abs_if zero_le_mult_iff)
  qed
  from eq range step show ?thesis
    unfolding Let_def eff_def [symmetric] target_def [symmetric] movement_def [symmetric] by simp
qed

theorem ai_paddle_tracking_witness:
  "running ((initial_game default_options)\<lparr>running := True, ball_y := 300\<rparr>) \<and>
   \<not> now \<lparr>now = 0, now_goal = 0, rnd = 0\<rparr>
       < pausedUntil ((initial_game default_options)\<lparr>running := True, ball_y := 300\<rparr>) \<and>
   ai_y (update default_options \<lparr>now = 0, now_goal = 0, rnd = 0\<rparr> 0
           ((initial_game default_options)\<lparr>running := True, ball_y := 300\<rparr>)) = 208"
proof -
  define g where "g = (initial_game default_options)\<lparr>running := True, ball_y := 300\<rparr>"
  define e where "e = \<lparr>now = 0, now_goal = 0, rnd = 0\<rparr>"
  have h1: "running g" by (simp add: g_def)
  have h2: "\<not> now e < pausedUntil g" by (simp add: g_def e_def initial_game_def)
  have f: "ball_vx g = 4" "ball_y g = 300" "ai_y g = 205"
    by (simp_all add: g_def initial_game_def option_defs geometry_defs)
  from ai_paddle_tracking [OF h1 h2, of default_options 0]
  have "ai_y (update default_options e 0 g) = 208"
    by (simp add: Let_def f option_defs geometry_defs clamp_def)
  with h1 h2 show ?thesis unfolding g_def e_def by simp
qed

text \<open>
  Claim C7. In a tick that is neither stopped nor paused and in which both \<open>input.up\<close>
  and \<open>input.down\<close> are set, the player's velocity is \<open>0 - PLAYER_SPEED + PLAYER_SPEED = 0\<close>:
  the new y is the old y clamped into the paddle range, the same as with neither flag
  set, and equal to the old y when that was in range.
\<close>

theorem both_keys_cancel:
  assumes "running g" and "\<not> now e < pausedUntil g" and "input_up g" and "input_down g"
  shows "player_y (update opts e dt g) = clamp (player_y g + 0) 0 (HEIGHT - PADDLE_HEIGHT) \<and>
         player_y (update opts e dt g) =
           player_y (update opts e dt (g\<lparr>input_up := False, input_down := False\<rparr>)) \<and>
         (0 \<le> player_y g \<and> player_y g \<le> HEIGHT - PADDLE_HEIGHT \<longrightarrow>
            player_y (update opts e dt g) = player_y g)"
proof -
  have a: "player_y (update opts e dt g) = clamp (player_y g) 0 (HEIGHT - PADDLE_HEIGHT)"
    using assms by (simp add: update_def update_goal_frame before_goal_frame update_player_def Let_def)
  have b: "player_y (update opts e dt (g\<lparr>input_up := False, input_down := False\<rparr>)) =
           clamp (player_y g) 0 (HEIGHT - PADDLE_HEIGHT)"
    using assms by (simp add: update_def update_goal_frame before_goal_frame update_player_def Let_def)
  from a b show ?thesis by (simp add: clamp_inside)
qed

theorem both_keys_cancel_witness:
  "running ((initial_game default_options)\<lparr>running := True, input_up := True, input_down := True\<rparr>) \<and>
   \<not> now \<lparr>now = 0, now_goal = 0, rnd = 0\<rparr>
       < pausedUntil ((initial_game default_options)\<lparr>running := True, input_up := True, input_down := True\<rparr>) \<and>
   input_up ((initial_game default_options)\<lparr>running := True, input_up := True, input_down := True\<rparr>) \<and>
   input_down ((initial_game default_options)\<lparr>running := True, input_up := True, input_down := True\<rparr>) \<and>
   player_y (update default_options \<lparr>now = 0, now_goal = 0, rnd = 0\<rparr> 0
       ((initial_game default_options)\<lparr>running := True, input_up := True, input_down := True\<rparr>)) = 205"
proof -
  define g where "g = (initial_game default_options)\<lparr>running := True, input_up := True, input_down := True\<rparr>"
  define e where "e = \<lparr>now = 0, now_goal = 0, rnd = 0\<rparr>"
  have h1: "running g" by (simp add: g_def)
  have h2: "\<not> now e < pausedUntil g" by (simp add: g_def e_def initial_game_def)
  have h3: "input_up g" by (simp add: g_def)
  have h4: "input_down g" by (simp add: g_def)
  have f: "player_y g = 205" by (simp add: g_def initial_game_def geometry_defs)
  from both_keys_cancel [OF h1 h2 h3 h4, of default_options 0]
  have "player_y (update default_options e 0 g) = 205"
    by (simp add: f geometry_defs)
  with h1 h2 h3 h4 show ?thesis unfolding g_def e_def by simp
qed

subsection \<open>Speed after a paddle hit\<close>

lemma hypot_nonneg: "0 \<le> hypot a b"
  by (simp add: hypot_def)

lemma hypot_scale: "hypot (a * k) (b * k) = hypot a b * \<bar>k\<bar>"
proof -
  have "a * k * (a * k) + b * k * (b * k) = (a * a + b * b) * (k * k)"
    by (simp add: algebra_simps)
  then have "hypot (a * k) (b * k) = sqrt ((a * a + b * b) * (k * k))"
    by (simp add: hypot_def)
  also have "\<dots> = sqrt (a * a + b * b) * sqrt (k * k)"
    by (rule real_sqrt_mult)
  finally show ?thesis by (simp add: hypot_def)
qed

lemma hypot_neg: "hypot (a * (- 1)) b = hypot a b"
  by (simp add: hypot_def)

lemma hypot_pos:
  assumes "a \<noteq> 0"
  shows "0 < hypot a b"
proof -
  from assms have "0 < a * a" by (metis not_real_square_gt_zero)
  moreover have "0 \<le> b * b" by simp
  ultimately have "0 < a * a + b * b" by linarith
  then show ?thesis by (simp add: hypot_def)
qed

text \<open>The renormalisation of lines 252 to 254, for a horizontal component that is not 0.\<close>

lemma hypot_normalise:
  assumes "a \<noteq> 0"
  shows "hypot (a / or_else (hypot a b) 1 * s) (b / or_else (hypot a b) 1 * s) = \<bar>s\<bar>"
proof -
  have pos: "0 < hypot a b" using assms by (rule hypot_pos)
  then have n: "or_else (hypot a b) 1 = hypot a b" by (simp add: or_else_def)
  have "hypot (a / hypot a b * s) (b / hypot a b * s) = hypot a b * \<bar>s / hypot a b\<bar>"
    using hypot_scale [of a "s / hypot a b" b] by (simp add: field_simps)
  also have "\<dots> = \<bar>s\<bar>" using pos by simp
  finally show ?thesis by (simp add: n)
qed

lemma direction_nonzero: "or_else (sign v) 1 \<noteq> 0"
  by (simp add: or_else_def sign_def)

text \<open>Whatever the options, the speed after the hit is the absolute value of the computed
  \<open>speed\<close>: the horizontal component before the renormalisation is at least 1 in size.\<close>

lemma reflected_hypot_abs:
  "hypot (ball_vx (reflectFromPaddle opts paddleY g)) (ball_vy (reflectFromPaddle opts paddleY g)) =
   \<bar>min (hypot (ball_vx g) (ball_vy g) + BALL_SPEED_STEP opts) (BALL_SPEED_MAX opts)\<bar>"
proof -
  define speed where
    "speed = min (hypot (ball_vx g * (- 1)) (ball_vy g) + BALL_SPEED_STEP opts) (BALL_SPEED_MAX opts)"
  define vy where
    "vy = ball_vy g + (ball_y g - (paddleY + PADDLE_HEIGHT / 2)) / (PADDLE_HEIGHT / 2) * 2"
  define vx where
    "vx = or_else (sign (ball_vx g * (- 1))) 1 * sqrt (max (speed * speed - vy * vy) 1)"
  have "0 < sqrt (max (speed * speed - vy * vy) 1)" by simp
  then have "vx \<noteq> 0" using direction_nonzero [of "ball_vx g * (- 1)"] by (simp add: vx_def)
  then have "hypot (vx / or_else (hypot vx vy) 1 * speed) (vy / or_else (hypot vx vy) 1 * speed) = \<bar>speed\<bar>"
    by (rule hypot_normalise)
  moreover have "ball_vx (reflectFromPaddle opts paddleY g) = vx / or_else (hypot vx vy) 1 * speed"
    by (simp add: reflectFromPaddle_def Let_def vx_def vy_def speed_def)
  moreover have "ball_vy (reflectFromPaddle opts paddleY g) = vy / or_else (hypot vx vy) 1 * speed"
    by (simp add: reflectFromPaddle_def Let_def vx_def vy_def speed_def)
  moreover have "speed = min (hypot (ball_vx g) (ball_vy g) + BALL_SPEED_STEP opts) (BALL_SPEED_MAX opts)"
    unfolding speed_def hypot_neg ..
  ultimately show ?thesis by simp
qed

lemma hypot_3_4: "hypot 3 4 = 5"
proof -
  have "sqrt (5 * 5) = (5::real)" by simp
  then show ?thesis by (simp add: hypot_def)
qed

text \<open>
  Claim C2, as stated: after \<open>reflectFromPaddle\<close>, the hypot of the new velocity is
  \<open>min (previousSpeed + BALL_SPEED_STEP) BALL_SPEED_MAX\<close>, for every velocity and paddle
  position. With the option \<open>ballSpeedMax = - 1\<close>, the first hit of a match, the ball coming
  from the centre with velocity \<open>(4, 0)\<close> onto the middle of the AI paddle at \<open>y = 205\<close>,
  has that minimum at \<open>- 1\<close>, and no hypot is negative.
\<close>

theorem reflect_speed_counterexample:
  "hypot (ball_vx (reflectFromPaddle (default_options\<lparr>ballSpeedMax := Some (- 1)\<rparr>) 205
                     ((initial_game default_options)\<lparr>ball_x := 760, ball_vx := 4\<rparr>)))
         (ball_vy (reflectFromPaddle (default_options\<lparr>ballSpeedMax := Some (- 1)\<rparr>) 205
                     ((initial_game default_options)\<lparr>ball_x := 760, ball_vx := 4\<rparr>)))
   \<noteq> min (hypot (ball_vx ((initial_game default_options)\<lparr>ball_x := 760, ball_vx := 4\<rparr>))
                 (ball_vy ((initial_game default_options)\<lparr>ball_x := 760, ball_vx := 4\<rparr>))
           + BALL_SPEED_STEP (default_options\<lparr>ballSpeedMax := Some (- 1)\<rparr>))
          (BALL_SPEED_MAX (default_options\<lparr>ballSpeedMax := Some (- 1)\<rparr>))"
proof -
  have "min (hypot 4 0 + 3 / 10) (- 1) = (- 1::real)"
    using hypot_nonneg [of 4 0] by simp
  then have "min (hypot (ball_vx ((initial_game default_options)\<lparr>ball_x := 760, ball_vx := 4\<rparr>))
                 (ball_vy ((initial_game default_options)\<lparr>ball_x := 760, ball_vx := 4\<rparr>))
           + BALL_SPEED_STEP (default_options\<lparr>ballSpeedMax := Some (- 1)\<rparr>))
          (BALL_SPEED_MAX (default_options\<lparr>ballSpeedMax := Some (- 1)\<rparr>)) < 0"
    by (simp add: BALL_SPEED_STEP_def BALL_SPEED_MAX_def default_options_def nullish_def)
  then show ?thesis
    using hypot_nonneg
      [of "ball_vx (reflectFromPaddle (default_options\<lparr>ballSpeedMax := Some (- 1)\<rparr>) 205
                     ((initial_game default_options)\<lparr>ball_x := 760, ball_vx := 4\<rparr>))"
          "ball_vy (reflectFromPaddle (default_options\<lparr>ballSpeedMax := Some (- 1)\<rparr>) 205
                     ((initial_game default_options)\<lparr>ball_x := 760, ball_vx := 4\<rparr>))"]
    by linarith
qed

text \<open>
  Claim C2, amended: for every velocity and paddle position, whenever
  \<open>min (previousSpeed + BALL_SPEED_STEP) BALL_SPEED_MAX\<close> is not negative (as it is with
  the default options, and with any non-negative step and maximum), the hypot of the
  velocity after \<open>reflectFromPaddle\<close> equals it, in real arithmetic.
\<close>

theorem reflect_speed:
  assumes "0 \<le> min (hypot (ball_vx g) (ball_vy g) + BALL_SPEED_STEP opts) (BALL_SPEED_MAX opts)"
  shows "hypot (ball_vx (reflectFromPaddle opts paddleY g)) (ball_vy (reflectFromPaddle opts paddleY g)) =
         min (hypot (ball_vx g) (ball_vy g) + BALL_SPEED_STEP opts) (BALL_SPEED_MAX opts)"
  using assms reflected_hypot_abs [of opts paddleY g] by simp

theorem reflect_speed_witness:
  "0 \<le> min (hypot (ball_vx ((initial_game default_options)\<lparr>ball_vx := 3, ball_vy := 4\<rparr>))
                    (ball_vy ((initial_game default_options)\<lparr>ball_vx := 3, ball_vy := 4\<rparr>))
              + BALL_SPEED_STEP default_options) (BALL_SPEED_MAX default_options)
   \<and> hypot (ball_vx (reflectFromPaddle default_options 205 ((initial_game default_options)\<lparr>ball_vx := 3, ball_vy := 4\<rparr>)))
         (ball_vy (reflectFromPaddle default_options 205 ((initial_game default_options)\<lparr>ball_vx := 3, ball_vy := 4\<rparr>)))
     = 53 / 10"
proof -
  have h: "0 \<le> min (hypot (ball_vx ((initial_game default_options)\<lparr>ball_vx := 3, ball_vy := 4\<rparr>))
                    (ball_vy ((initial_game default_options)\<lparr>ball_vx := 3, ball_vy := 4\<rparr>))
              + BALL_SPEED_STEP default_options) (BALL_SPEED_MAX default_options)"
    by (simp add: hypot_3_4 option_defs)
  show ?thesis using h reflect_speed [OF h, of 205]
    by (simp add: hypot_3_4 option_defs)
qed

subsection \<open>Touch gestures\<close>

lemma onTouchMove_start: "touchStartY (onTouchMove e g) = touchStartY g"
  by (simp add: onTouchMove_def Let_def split: list.splits)

lemma moves_keep_start: "touchStartY (fold onTouchMove moves g) = touchStartY g"
  by (induction moves arbitrary: g) (simp_all add: onTouchMove_start)

lemma onTouchStart_start: "touches e = t # ts \<Longrightarrow> touchStartY (onTouchStart e g) = clientY t"
  by (simp add: onTouchStart_def)

lemma onTouchMove_flags:
  assumes "touches e = t # ts" and "20 < \<bar>clientY t - touchStartY g\<bar>"
  shows "input_up (onTouchMove e g) = (clientY t - touchStartY g < 0)"
    and "input_down (onTouchMove e g) = (\<not> clientY t - touchStartY g < 0)"
  using assms by (simp_all add: onTouchMove_def Let_def touchThreshold_def)

lemma start_input:
  "input_up (start g) = input_up g" "input_down (start g) = input_down g"
  by (simp_all add: start_def requestAnimationFrame_def)

lemma resetMatch_input:
  "input_up (resetMatch opts rs rr g) = input_up g"
  "input_down (resetMatch opts rs rr g) = input_down g"
  by (simp_all add: resetMatch_def resetBall_def set_scores_ai_def set_scores_player_def Let_def)

lemma onTouchEnd_flags:
  "\<not> input_up (onTouchEnd opts rs rr rect e g)" "\<not> input_down (onTouchEnd opts rs rr rect e g)"
  by (simp_all add: onTouchEnd_def Let_def start_input resetMatch_input split: list.splits)

text \<open>
  Claim C8. A gesture is a touchstart, any number of touchmoves, and a touchend, each
  start and move event with at least one touch. After a move whose first touch is more
  than 20 units above or below the first touch of the start event, exactly one flag is
  set: \<open>up\<close> for a smaller \<open>clientY\<close> (upward on the screen), \<open>down\<close> for a larger one. After
  the touchend both flags are false, whatever the state before. A move of 25 units
  downward right after the start gives \<open>down\<close> true and \<open>up\<close> false.
\<close>

theorem touch_gesture:
  "(touches e0 = t0 # ts0 \<longrightarrow> touches e = t # ts \<longrightarrow> 20 < \<bar>clientY t - clientY t0\<bar> \<longrightarrow>
      (clientY t - clientY t0 < 0 \<longrightarrow>
         input_up (onTouchMove e (fold onTouchMove moves (onTouchStart e0 g))) \<and>
         \<not> input_down (onTouchMove e (fold onTouchMove moves (onTouchStart e0 g)))) \<and>
      (clientY t - clientY t0 > 0 \<longrightarrow>
         \<not> input_up (onTouchMove e (fold onTouchMove moves (onTouchStart e0 g))) \<and>
         input_down (onTouchMove e (fold onTouchMove moves (onTouchStart e0 g)))))
   \<and> \<not> input_up (onTouchEnd opts rs rr rect e1 g1)
   \<and> \<not> input_down (onTouchEnd opts rs rr rect e1 g1)
   \<and> (touches e0 = t0 # ts0 \<longrightarrow> touches e = t # ts \<longrightarrow> clientY t = clientY t0 + 25 \<longrightarrow>
         input_down (onTouchMove e (onTouchStart e0 g)) \<and>
         \<not> input_up (onTouchMove e (onTouchStart e0 g)))"
proof (intro conjI impI)
  show "\<not> input_up (onTouchEnd opts rs rr rect e1 g1)" by (rule onTouchEnd_flags)
  show "\<not> input_down (onTouchEnd opts rs rr rect e1 g1)" by (rule onTouchEnd_flags)
next
  assume s: "touches e0 = t0 # ts0" and m: "touches e = t # ts"
    and far: "20 < \<bar>clientY t - clientY t0\<bar>"
  define g' where "g' = fold onTouchMove moves (onTouchStart e0 g)"
  have st: "touchStartY g' = clientY t0"
    by (simp add: g'_def moves_keep_start onTouchStart_start [OF s])
  from far have far': "20 < \<bar>clientY t - touchStartY g'\<bar>" by (simp add: st)
  note fl = onTouchMove_flags [OF m far', unfolded st, folded g'_def]
  {
    assume "clientY t - clientY t0 < 0"
    then show "input_up (onTouchMove e (fold onTouchMove moves (onTouchStart e0 g)))"
      and "\<not> input_down (onTouchMove e (fold onTouchMove moves (onTouchStart e0 g)))"
      using fl by (simp_all add: g'_def)
  }
  {
    assume "clientY t - clientY t0 > 0"
    then show "\<not> input_up (onTouchMove e (fold onTouchMove moves (onTouchStart e0 g)))"
      and "input_down (onTouchMove e (fold onTouchMove moves (onTouchStart e0 g)))"
      using fl by (simp_all add: g'_def)
  }
next
  assume s: "touches e0 = t0 # ts0" and m: "touches e = t # ts"
    and d: "clientY t = clientY t0 + 25"
  have st: "touchStartY (onTouchStart e0 g) = clientY t0" by (rule onTouchStart_start [OF s])
  from d have far: "20 < \<bar>clientY t - touchStartY (onTouchStart e0 g)\<bar>" by (simp add: st)
  from onTouchMove_flags [OF m far] d
  show "input_down (onTouchMove e (onTouchStart e0 g))"
    and "\<not> input_up (onTouchMove e (onTouchStart e0 g))"
    by (simp_all add: st)
qed

theorem touch_gesture_witness:
  "input_up (onTouchMove \<lparr>touches = [\<lparr>clientX = 10, clientY = 70\<rparr>], changedTouches = []\<rparr>
       (fold onTouchMove []
          (onTouchStart \<lparr>touches = [\<lparr>clientX = 10, clientY = 100\<rparr>], changedTouches = []\<rparr>
             (initial_game default_options)))) \<and>
   input_down (onTouchMove \<lparr>touches = [\<lparr>clientX = 10, clientY = 125\<rparr>], changedTouches = []\<rparr>
       (onTouchStart \<lparr>touches = [\<lparr>clientX = 10, clientY = 100\<rparr>], changedTouches = []\<rparr>
          (initial_game default_options)))"
proof -
  define e0 where "e0 = \<lparr>touches = [\<lparr>clientX = 10, clientY = 100\<rparr>], changedTouches = []\<rparr>"
  define up where "up = \<lparr>touches = [\<lparr>clientX = 10, clientY = 70\<rparr>], changedTouches = []\<rparr>"
  define dn where "dn = \<lparr>touches = [\<lparr>clientX = 10, clientY = 125\<rparr>], changedTouches = []\<rparr>"
  have a: "input_up (onTouchMove up (fold onTouchMove [] (onTouchStart e0 (initial_game default_options))))"
    using touch_gesture [of e0 "\<lparr>clientX = 10, clientY = 100\<rparr>" "[]" up
        "\<lparr>clientX = 10, clientY = 70\<rparr>" "[]" "[]" "initial_game default_options"]
    by (simp add: e0_def up_def)
  have b: "input_down (onTouchMove dn (onTouchStart e0 (initial_game default_options)))"
    using touch_gesture [of e0 "\<lparr>clientX = 10, clientY = 100\<rparr>" "[]" dn
        "\<lparr>clientX = 10, clientY = 125\<rparr>" "[]" "[]" "initial_game default_options"]
    by (simp add: e0_def dn_def)
  from a b show ?thesis unfolding e0_def up_def dn_def by simp
qed

subsection \<open>Reset and start\<close>

text \<open>What \<open>start\<close> does to a game that is not running, for comparison.\<close>

lemma start_when_stopped:
  "\<not> running g \<Longrightarrow>
   lastTime (start g) = None \<and> raf_queue (start g) = raf_queue g @ [Suc (raf_last g)] \<and>
   rafId (start g) = Suc (raf_last g) \<and> running (start g)"
  by (simp add: start_def requestAnimationFrame_def)

lemma resetMatch_driver:
  "running (resetMatch opts rs rr g)"
  "raf_queue (resetMatch opts rs rr g) = raf_queue g"
  "raf_last (resetMatch opts rs rr g) = raf_last g"
  "rafId (resetMatch opts rs rr g) = rafId g"
  "lastTime (resetMatch opts rs rr g) = lastTime g"
  by (simp_all add: resetMatch_def resetBall_def set_scores_ai_def set_scores_player_def Let_def)

text \<open>
  Claim C10. After \<open>reset\<close>, whatever the state before, \<open>running\<close> is true, and \<open>reset\<close> has
  requested no animation frame: the queue of requests, the last id handed out and
  \<open>rafId\<close> are as before. A \<open>start\<close> that follows at once returns the state unchanged, so
  \<open>lastTime\<close> is not cleared and no frame is requested.
\<close>

theorem reset_then_start:
  "running (reset opts rs rr g) \<and>
   raf_queue (reset opts rs rr g) = raf_queue g \<and>
   raf_last (reset opts rs rr g) = raf_last g \<and>
   rafId (reset opts rs rr g) = rafId g \<and>
   start (reset opts rs rr g) = reset opts rs rr g \<and>
   lastTime (start (reset opts rs rr g)) = lastTime g \<and>
   raf_queue (start (reset opts rs rr g)) = raf_queue g"
proof -
  have r: "running (reset opts rs rr g)" by (simp add: reset_def resetMatch_driver)
  then have s: "start (reset opts rs rr g) = reset opts rs rr g" by (simp add: start_def)
  show ?thesis by (simp add: s) (simp add: reset_def resetMatch_driver)
qed

subsection \<open>What each operation does to the paddles and to the store\<close>

lemma update_paddles_in_range:
  assumes "paddles_in_range g"
  shows "paddles_in_range (update opts e dt g)"
proof (cases "\<not> running g \<or> now e < pausedUntil g")
  case True
  then have "update opts e dt g = g" by (auto simp: update_def)
  with assms show ?thesis by simp
next
  case False
  then have u: "update opts e dt g = update_goal opts e (before_goal opts g)"
    by (simp add: update_def)
  have r: "(0::real) \<le> HEIGHT - PADDLE_HEIGHT" by (simp add: geometry_defs)
  show ?thesis
    unfolding paddles_in_range_def u update_goal_frame before_goal_frame
    using clamp_range [OF r] by (simp add: update_player_def update_ai_def Let_def)
qed

lemma update_store:
  "scores (update opts e dt g) = scores g"
  "heap_next (update opts e dt g) = heap_next g"
  "a \<noteq> scores g \<Longrightarrow> heap (update opts e dt g) a = heap g a"
  by (simp_all add: update_def update_goal_frame update_goal_heap before_goal_frame)

lemma render_frame:
  "player_y (render g) = player_y g" "ai_y (render g) = ai_y g"
  "scores (render g) = scores g" "heap (render g) = heap g" "heap_next (render g) = heap_next g"
  by (simp_all add: render_def)

lemma loop_paddles_in_range:
  "paddles_in_range g \<Longrightarrow> paddles_in_range (loop opts e ts g)"
proof -
  assume "paddles_in_range g"
  then have "paddles_in_range (g\<lparr>lastTime := Some ts\<rparr>)" by (simp add: paddles_in_range_def)
  then have "paddles_in_range (update opts e ((ts - (case lastTime g of None \<Rightarrow> ts | Some t \<Rightarrow> t)) / 1000)
               (g\<lparr>lastTime := Some ts\<rparr>))"
    by (rule update_paddles_in_range)
  then show ?thesis
    by (simp add: loop_def Let_def requestAnimationFrame_def paddles_in_range_def render_frame)
qed

lemma loop_store:
  "scores (loop opts e ts g) = scores g"
  "heap_next (loop opts e ts g) = heap_next g"
  "a \<noteq> scores g \<Longrightarrow> heap (loop opts e ts g) a = heap g a"
  by (simp_all add: loop_def Let_def requestAnimationFrame_def render_frame update_store)

lemma frame_paddles_in_range:
  "paddles_in_range g \<Longrightarrow> paddles_in_range (frame opts e ts g)"
proof (cases "raf_queue g")
  case Nil
  assume "paddles_in_range g"
  with Nil show ?thesis by (simp add: frame_def)
next
  case (Cons i rest)
  assume "paddles_in_range g"
  then have "paddles_in_range (g\<lparr>raf_queue := rest\<rparr>)" by (simp add: paddles_in_range_def)
  then have "paddles_in_range (loop opts e ts (g\<lparr>raf_queue := rest\<rparr>))"
    by (rule loop_paddles_in_range)
  with Cons show ?thesis by (simp add: frame_def)
qed

lemma frame_store:
  "scores (frame opts e ts g) = scores g"
  "heap_next (frame opts e ts g) = heap_next g"
  "a \<noteq> scores g \<Longrightarrow> heap (frame opts e ts g) a = heap g a"
  by (simp_all add: frame_def loop_store split: list.splits)

lemma resetMatch_paddles_in_range: "paddles_in_range (resetMatch opts rs rr g)"
  by (simp add: paddles_in_range_def resetMatch_def resetBall_def Let_def geometry_defs)

lemma resetMatch_store:
  "scores (resetMatch opts rs rr g) = scores g"
  "heap_next (resetMatch opts rs rr g) = heap_next g"
  "a \<noteq> scores g \<Longrightarrow> heap (resetMatch opts rs rr g) a = heap g a"
  by (simp_all add: resetMatch_def resetBall_def set_scores_ai_def set_scores_player_def Let_def)

lemma resetMatch_scores:
  "heap (resetMatch opts rs rr g) (scores (resetMatch opts rs rr g)) = \<lparr>player = 0, ai = 0\<rparr>"
  by (simp add: resetMatch_def resetBall_def set_scores_ai_def set_scores_player_def Let_def)

lemma start_frame:
  "player_y (start g) = player_y g" "ai_y (start g) = ai_y g"
  "scores (start g) = scores g" "heap (start g) = heap g" "heap_next (start g) = heap_next g"
  by (simp_all add: start_def requestAnimationFrame_def)

lemma stop_frame:
  "player_y (stop g) = player_y g" "ai_y (stop g) = ai_y g"
  "scores (stop g) = scores g" "heap (stop g) = heap g" "heap_next (stop g) = heap_next g"
  by (simp_all add: stop_def cancelAnimationFrame_def Let_def)

lemma start_paddles_in_range: "paddles_in_range g \<Longrightarrow> paddles_in_range (start g)"
  by (simp add: paddles_in_range_def start_frame)

lemma onKeyDown_paddles_in_range:
  "paddles_in_range g \<Longrightarrow> paddles_in_range (onKeyDown opts rs rr code g)"
  by (auto simp: onKeyDown_def Let_def resetMatch_paddles_in_range)
     (simp_all add: paddles_in_range_def)

lemma onKeyDown_store:
  "scores (onKeyDown opts rs rr code g) = scores g"
  "heap_next (onKeyDown opts rs rr code g) = heap_next g"
  "a \<noteq> scores g \<Longrightarrow> heap (onKeyDown opts rs rr code g) a = heap g a"
  by (simp_all add: onKeyDown_def Let_def resetMatch_store)

lemma onKeyUp_frame:
  "player_y (onKeyUp code g) = player_y g" "ai_y (onKeyUp code g) = ai_y g"
  "scores (onKeyUp code g) = scores g" "heap (onKeyUp code g) = heap g"
  "heap_next (onKeyUp code g) = heap_next g"
  by (simp_all add: onKeyUp_def Let_def)

lemma onClick_paddles_in_range:
  "paddles_in_range g \<Longrightarrow> paddles_in_range (onClick opts rs rr g)"
  by (simp add: onClick_def resetMatch_paddles_in_range start_paddles_in_range)

lemma onClick_store:
  "scores (onClick opts rs rr g) = scores g"
  "heap_next (onClick opts rs rr g) = heap_next g"
  "a \<noteq> scores g \<Longrightarrow> heap (onClick opts rs rr g) a = heap g a"
  by (simp_all add: onClick_def resetMatch_store start_frame)

lemma onTouchStart_frame:
  "player_y (onTouchStart e g) = player_y g" "ai_y (onTouchStart e g) = ai_y g"
  "scores (onTouchStart e g) = scores g" "heap (onTouchStart e g) = heap g"
  "heap_next (onTouchStart e g) = heap_next g"
  by (simp_all add: onTouchStart_def split: list.splits)

lemma onTouchMove_frame:
  "player_y (onTouchMove e g) = player_y g" "ai_y (onTouchMove e g) = ai_y g"
  "scores (onTouchMove e g) = scores g" "heap (onTouchMove e g) = heap g"
  "heap_next (onTouchMove e g) = heap_next g"
  by (simp_all add: onTouchMove_def Let_def split: list.splits)

lemma onTouchEnd_paddles_in_range:
  assumes "paddles_in_range g"
  shows "paddles_in_range (onTouchEnd opts rs rr rect e g)"
proof -
  from assms have "paddles_in_range (g\<lparr>input_up := False, input_down := False\<rparr>)"
    by (simp add: paddles_in_range_def)
  then show ?thesis
    by (simp add: onTouchEnd_def Let_def resetMatch_paddles_in_range start_paddles_in_range
        split: list.splits)
qed

lemma onTouchEnd_store:
  "scores (onTouchEnd opts rs rr rect e g) = scores g"
  "heap_next (onTouchEnd opts rs rr rect e g) = heap_next g"
  "a \<noteq> scores g \<Longrightarrow> heap (onTouchEnd opts rs rr rect e g) a = heap g a"
  by (simp_all add: onTouchEnd_def Let_def resetMatch_store start_frame split: list.splits)

lemma getScores_frame:
  "player_y (snd (getScores g)) = player_y g" "ai_y (snd (getScores g)) = ai_y g"
  "scores (snd (getScores g)) = scores g"
  "heap_next (snd (getScores g)) = Suc (heap_next g)"
  "a < heap_next g \<Longrightarrow> heap (snd (getScores g)) a = heap g a"
  "heap (snd (getScores g)) (fst (getScores g)) = heap g (scores g)"
  by (simp_all add: getScores_def)

lemma getScores_fst: "fst (getScores g) = heap_next g"
  by (simp add: getScores_def)

lemma perform_paddles_in_range:
  "paddles_in_range g \<Longrightarrow> paddles_in_range (perform opts act g)"
proof (cases act)
  case Start then show "paddles_in_range g \<Longrightarrow> ?thesis" by (simp add: start_paddles_in_range)
next
  case Stop then show "paddles_in_range g \<Longrightarrow> ?thesis" by (simp add: paddles_in_range_def stop_frame)
next
  case Reset then show "paddles_in_range g \<Longrightarrow> ?thesis" by (simp add: reset_def resetMatch_paddles_in_range)
next
  case GetScores then show "paddles_in_range g \<Longrightarrow> ?thesis" by (simp add: paddles_in_range_def getScores_frame)
next
  case KeyDown then show "paddles_in_range g \<Longrightarrow> ?thesis" by (simp add: onKeyDown_paddles_in_range)
next
  case KeyUp then show "paddles_in_range g \<Longrightarrow> ?thesis" by (simp add: paddles_in_range_def onKeyUp_frame)
next
  case Click then show "paddles_in_range g \<Longrightarrow> ?thesis" by (simp add: onClick_paddles_in_range)
next
  case TouchStart then show "paddles_in_range g \<Longrightarrow> ?thesis" by (simp add: paddles_in_range_def onTouchStart_frame)
next
  case TouchMove then show "paddles_in_range g \<Longrightarrow> ?thesis" by (simp add: paddles_in_range_def onTouchMove_frame)
next
  case TouchEnd then show "paddles_in_range g \<Longrightarrow> ?thesis" by (simp add: onTouchEnd_paddles_in_range)
next
  case Frame then show "paddles_in_range g \<Longrightarrow> ?thesis" by (simp add: frame_paddles_in_range)
qed

lemma perform_store:
  "scores (perform opts act g) = scores g"
  "heap_next g \<le> heap_next (perform opts act g)"
  "a \<noteq> scores g \<Longrightarrow> a < heap_next g \<Longrightarrow> heap (perform opts act g) a = heap g a"
  by (cases act; simp add: start_frame stop_frame reset_def resetMatch_store getScores_frame
        onKeyDown_store onKeyUp_frame onClick_store onTouchStart_frame onTouchMove_frame
        onTouchEnd_store frame_store)+

lemma run_paddles_in_range:
  "paddles_in_range g \<Longrightarrow> paddles_in_range (run opts acts g)"
  by (induction acts arbitrary: g) (simp_all add: perform_paddles_in_range)

lemma run_store:
  "scores (run opts acts g) = scores g \<and> heap_next g \<le> heap_next (run opts acts g) \<and>
   (a \<noteq> scores g \<longrightarrow> a < heap_next g \<longrightarrow> heap (run opts acts g) a = heap g a)"
proof (induction acts arbitrary: g)
  case Nil
  show ?case by simp
next
  case (Cons act acts)
  define g' where "g' = perform opts act g"
  have s: "scores g' = scores g" unfolding g'_def by (rule perform_store)
  have le: "heap_next g \<le> heap_next g'" unfolding g'_def by (rule perform_store)
  have h: "heap g' a = heap g a" if "a \<noteq> scores g" "a < heap_next g"
    unfolding g'_def using that by (rule perform_store)
  from Cons.IH [of g']
  have ih: "scores (run opts acts g') = scores g'" "heap_next g' \<le> heap_next (run opts acts g')"
    "a \<noteq> scores g' \<longrightarrow> a < heap_next g' \<longrightarrow> heap (run opts acts g') a = heap g' a"
    by simp_all
  have r: "run opts (act # acts) g = run opts acts g'" by (simp add: g'_def)
  have "scores (run opts acts g') = scores g" using ih(1) s by simp
  moreover have "heap_next g \<le> heap_next (run opts acts g')" using ih(2) le by linarith
  moreover have "heap (run opts acts g') a = heap g a" if "a \<noteq> scores g" "a < heap_next g"
  proof -
    from that le s have "a \<noteq> scores g'" "a < heap_next g'" by simp_all
    with ih(3) have "heap (run opts acts g') a = heap g' a" by simp
    with h [OF that] show ?thesis by simp
  qed
  ultimately show ?case unfolding r by simp
qed

lemma initial_paddles_in_range: "paddles_in_range (initial_game opts)"
  by (simp add: paddles_in_range_def initial_game_def geometry_defs)

lemma run_scores_allocated: "scores (run opts acts (initial_game opts)) < heap_next (run opts acts (initial_game opts))"
proof -
  have "scores (initial_game opts) < heap_next (initial_game opts)" by (simp add: initial_game_def)
  moreover from run_store [of opts acts "initial_game opts" 0]
  have "scores (run opts acts (initial_game opts)) = scores (initial_game opts)"
    "heap_next (initial_game opts) \<le> heap_next (run opts acts (initial_game opts))"
    by simp_all
  ultimately show ?thesis by linarith
qed

subsection \<open>Paddle range\<close>

text \<open>
  Claim C3. From the state \<open>createPong\<close> builds, after any sequence of control calls,
  input events and frames, whatever the flags, clock readings and random numbers, both
  paddles are within \<open>[0, HEIGHT - PADDLE_HEIGHT]\<close>, and they still are after one more
  \<open>update\<close>.
\<close>

theorem paddles_stay_in_range:
  "0 \<le> player_y (run opts acts (initial_game opts)) \<and>
   player_y (run opts acts (initial_game opts)) \<le> HEIGHT - PADDLE_HEIGHT \<and>
   0 \<le> ai_y (run opts acts (initial_game opts)) \<and>
   ai_y (run opts acts (initial_game opts)) \<le> HEIGHT - PADDLE_HEIGHT \<and>
   0 \<le> player_y (update opts e dt (run opts acts (initial_game opts))) \<and>
   player_y (update opts e dt (run opts acts (initial_game opts))) \<le> HEIGHT - PADDLE_HEIGHT \<and>
   0 \<le> ai_y (update opts e dt (run opts acts (initial_game opts))) \<and>
   ai_y (update opts e dt (run opts acts (initial_game opts))) \<le> HEIGHT - PADDLE_HEIGHT"
proof -
  have a: "paddles_in_range (run opts acts (initial_game opts))"
    using initial_paddles_in_range by (rule run_paddles_in_range)
  then have "paddles_in_range (update opts e dt (run opts acts (initial_game opts)))"
    by (rule update_paddles_in_range)
  with a show ?thesis by (simp add: paddles_in_range_def)
qed

subsection \<open>Score snapshots\<close>

text \<open>
  Claim C9. The object \<open>getScores\<close> returns right after construction has both fields 0,
  and so has the one it returns right after a \<open>reset\<close>, in any state. In any state \<open>g\<close>
  reached from construction, the object returned is not the game's own score object;
  whatever the game does later, a write to the returned object leaves the game's scores
  as they are, and the returned object still holds what it held when it was returned.
\<close>

theorem getScores_snapshot:
  "createPong True True opts = Inr (initial_game opts) \<and>
   heap (snd (getScores (initial_game opts))) (fst (getScores (initial_game opts)))
     = \<lparr>player = 0, ai = 0\<rparr> \<and>
   heap (snd (getScores (reset opts rs rr g0))) (fst (getScores (reset opts rs rr g0)))
     = \<lparr>player = 0, ai = 0\<rparr> \<and>
   (let g = run opts acts (initial_game opts);
        a = fst (getScores g);
        g1 = snd (getScores g)
    in heap g1 a = \<lparr>player = scores_player g, ai = scores_ai g\<rparr> \<and>
       a \<noteq> scores g1 \<and>
       scores_player (host_write a v (run opts later g1)) = scores_player (run opts later g1) \<and>
       scores_ai (host_write a v (run opts later g1)) = scores_ai (run opts later g1) \<and>
       heap (run opts later g1) a = heap g1 a)"
proof -
  define g where "g = run opts acts (initial_game opts)"
  define a where "a = fst (getScores g)"
  define g1 where "g1 = snd (getScores g)"
  have alloc: "scores g < heap_next g" unfolding g_def by (rule run_scores_allocated)
  have a: "a = heap_next g" by (simp add: a_def getScores_fst)
  have ne: "a \<noteq> scores g1" using alloc by (simp add: a g1_def getScores_frame)
  have lt: "a < heap_next g1" by (simp add: a g1_def getScores_frame)
  have copy: "heap g1 a = \<lparr>player = scores_player g, ai = scores_ai g\<rparr>"
    by (simp add: a_def g1_def getScores_def scores_player_def scores_ai_def)
  from run_store [of opts later g1 a] ne lt
  have later: "scores (run opts later g1) = scores g1" "heap (run opts later g1) a = heap g1 a"
    by simp_all
  have w: "scores_player (host_write a v (run opts later g1)) = scores_player (run opts later g1)"
    "scores_ai (host_write a v (run opts later g1)) = scores_ai (run opts later g1)"
    using ne by (simp_all add: host_write_def scores_player_def scores_ai_def later)
  have init: "heap (snd (getScores (initial_game opts))) (fst (getScores (initial_game opts)))
     = \<lparr>player = 0, ai = 0\<rparr>"
    by (simp add: getScores_def initial_game_def)
  have res: "heap (snd (getScores (reset opts rs rr g0))) (fst (getScores (reset opts rs rr g0)))
     = \<lparr>player = 0, ai = 0\<rparr>"
    by (simp add: getScores_frame reset_def resetMatch_scores)
  have c: "createPong True True opts = Inr (initial_game opts)" by (simp add: createPong_def)
  from c init res copy ne w later show ?thesis
    unfolding Let_def g_def [symmetric] a_def [symmetric] g1_def [symmetric] by simp
qed

end
